theory Spec2Isabelle
  imports Complex_Main
begin

section \<open>Python values and library behaviour used by the claim pipeline\<close>

text \<open>
  The pipeline passes dictionaries that come out of \<^verbatim>\<open>json.loads\<close> from one engine
  to the next, so a value is a JSON value. Python keeps \<^verbatim>\<open>int\<close> and \<^verbatim>\<open>float\<close>
  apart (\<^verbatim>\<open>str(0)\<close> is \<^verbatim>\<open>'0'\<close>, \<^verbatim>\<open>str(0.0)\<close> is \<^verbatim>\<open>'0.0'\<close>), and so does
  the model. Floats are modelled by the real number they denote: rounding, NaN and
  infinities are outside the model. A dictionary is its list of items in insertion order.
\<close>

datatype json =
    JNull
  | JBool bool
  | JInt int
  | JFloat real
  | JStr string
  | JList "json list"
  | JObj "(string \<times> json) list"

type_synonym pydict = "(string \<times> json) list"

datatype error =
    TypeError
  | AttributeError
  | KeyError
  | ValueError
  | ReportError

text \<open>\<^verbatim>\<open>d.get(k, default)\<close> and \<^verbatim>\<open>d[k]\<close>.\<close>

definition dict_get :: "pydict \<Rightarrow> string \<Rightarrow> json \<Rightarrow> json" where
  "dict_get d k dflt = (case map_of d k of None \<Rightarrow> dflt | Some v \<Rightarrow> v)"

definition dict_item :: "pydict \<Rightarrow> string \<Rightarrow> error + json" where
  "dict_item d k = (case map_of d k of None \<Rightarrow> Inl KeyError | Some v \<Rightarrow> Inr v)"

text \<open>Truth value of an object, as \<^verbatim>\<open>not x\<close> and \<^verbatim>\<open>if x\<close> test it.\<close>

fun truthy :: "json \<Rightarrow> bool" where
  "truthy JNull = False"
| "truthy (JBool b) = b"
| "truthy (JInt i) = (i \<noteq> 0)"
| "truthy (JFloat r) = (r \<noteq> 0)"
| "truthy (JStr s) = (s \<noteq> [])"
| "truthy (JList xs) = (xs \<noteq> [])"
| "truthy (JObj kvs) = (kvs \<noteq> [])"

text \<open>The numeric value of an object that takes part in arithmetic (\<^verbatim>\<open>bool\<close> is an \<^verbatim>\<open>int\<close>).\<close>

fun num_val :: "json \<Rightarrow> error + real" where
  "num_val (JInt i) = Inr (of_int i)"
| "num_val (JFloat r) = Inr r"
| "num_val (JBool b) = Inr (if b then 1 else 0)"
| "num_val _ = Inl TypeError"

text \<open>\<^verbatim>\<open>x > n\<close> for a numeric literal \<^verbatim>\<open>n\<close>: a TypeError unless \<^verbatim>\<open>x\<close> is a number.\<close>

definition gt_number :: "json \<Rightarrow> real \<Rightarrow> error + bool" where
  "gt_number x n = (case num_val x of Inl e \<Rightarrow> Inl e | Inr r \<Rightarrow> Inr (r > n))"

text \<open>\<^verbatim>\<open>x.lower()\<close>: an AttributeError unless \<^verbatim>\<open>x\<close> is a string. Characters are bytes,
  and only the ASCII letters have a lower case.\<close>

definition lower_char :: "char \<Rightarrow> char" where
  "lower_char c =
     (case map_of (zip ''ABCDEFGHIJKLMNOPQRSTUVWXYZ'' ''abcdefghijklmnopqrstuvwxyz'') c of
        Some l \<Rightarrow> l
      | None \<Rightarrow> c)"

definition lower :: "string \<Rightarrow> string" where
  "lower s = map lower_char s"

definition str_lower :: "json \<Rightarrow> error + string" where
  "str_lower x = (case x of JStr s \<Rightarrow> Inr (lower s) | _ \<Rightarrow> Inl AttributeError)"

text \<open>\<^verbatim>\<open>pat in s\<close> on strings: \<^verbatim>\<open>pat\<close> occurs in \<^verbatim>\<open>s\<close> as a contiguous substring.\<close>

fun starts_with :: "string \<Rightarrow> string \<Rightarrow> bool" where
  "starts_with [] s = True"
| "starts_with (p # ps) [] = False"
| "starts_with (p # ps) (c # cs) = (p = c \<and> starts_with ps cs)"

fun contains :: "string \<Rightarrow> string \<Rightarrow> bool" where
  "contains pat [] = (pat = [])"
| "contains pat (c # cs) = (starts_with pat (c # cs) \<or> contains pat cs)"

text \<open>\<^verbatim>\<open>re.search(r'\d{6,}@', email)\<close>: six digits directly followed by \<^verbatim>\<open>@\<close> somewhere
  in the text (a longer run of digits before the \<^verbatim>\<open>@\<close> ends with six of them).\<close>

definition is_digit :: "char \<Rightarrow> bool" where
  "is_digit c = (c \<in> set ''0123456789'')"

definition six_digits_at :: "string \<Rightarrow> bool" where
  "six_digits_at s =
     (7 \<le> length s \<and> list_all is_digit (take 6 s) \<and> s ! 6 = CHR ''@'')"

fun search_digits_at :: "string \<Rightarrow> bool" where
  "search_digits_at [] = False"
| "search_digits_at (c # cs) = (six_digits_at (c # cs) \<or> search_digits_at cs)"

section \<open>The environment: library functions and collaborators outside the repository\<close>

text \<open>
  What the code calls but does not define is a field of the environment:
  \<^item> \<open>py_repr\<close>: \<^verbatim>\<open>str()\<close> of a float, a list or a dictionary;
  \<^item> \<open>md5_hexdigest\<close>: \<^verbatim>\<open>hashlib.md5(text.encode()).hexdigest()\<close>;
  \<^item> \<open>json_loads\<close>: \<^verbatim>\<open>json.loads\<close>, \<open>None\<close> when it raises; \<open>json_dumps\<close>: \<^verbatim>\<open>json.dumps\<close>
    with \<^verbatim>\<open>indent=2\<close>, and \<open>json_dumps_claims\<close> the same for the registry;
  \<^item> \<open>rich_gt\<close>: \<^verbatim>\<open>x > y\<close> on operands that are not both numbers;
  \<^item> \<open>days_since\<close>: \<^verbatim>\<open>(datetime.now() - datetime.strptime(s, '%Y-%m-%d')).days\<close>,
    \<open>None\<close> when the text is not such a date;
  \<^item> \<open>set_order\<close>: the order in which \<^verbatim>\<open>list(set(xs))\<close> lists the distinct elements;
  \<^item> \<open>FRAUD_THRESHOLD\<close>, \<open>DUPLICATE_THRESHOLD\<close>: the two settings read from the process
    environment (0.7 and 0.8 unless overridden);
  \<^item> \<open>FRAUD_DETECTION_PROMPT\<close>, \<open>DUPLICATE_DETECTION_PROMPT\<close>: the prompt constants.
\<close>

record env =
  py_repr :: "json \<Rightarrow> string"
  md5_hexdigest :: "string \<Rightarrow> string"
  json_loads :: "string \<Rightarrow> json option"
  json_dumps :: "json \<Rightarrow> string"
  json_dumps_claims :: "(json \<times> (string \<times> json) list) list \<Rightarrow> string"
  rich_gt :: "json \<Rightarrow> json \<Rightarrow> error + bool"
  days_since :: "string \<Rightarrow> int option"
  set_order :: "json list \<Rightarrow> json list"
  FRAUD_THRESHOLD :: real
  DUPLICATE_THRESHOLD :: real
  FRAUD_DETECTION_PROMPT :: string
  DUPLICATE_DETECTION_PROMPT :: string

text \<open>The hosted analysis service, \<^verbatim>\<open>GeminiClient.analyze_content\<close>: from the prompt to the
  text of the answer. It catches every exception itself and answers with a text then.\<close>

type_synonym service = "string \<Rightarrow> string"

section \<open>Fraud detector\<close>

subsection \<open>Rules\<close>

text \<open>\<^verbatim>\<open>FraudDetector._suspicious_date_pattern\<close>\<close>

definition suspicious_date_pattern :: "env \<Rightarrow> json \<Rightarrow> error + bool" where
  "suspicious_date_pattern E date_str =
     (if \<not> truthy date_str then Inr True
      else case str_lower date_str of
        Inl e \<Rightarrow> Inl e
      | Inr l \<Rightarrow>
          if l \<in> set [''unknown'', ''n/a'', ''''] then Inr True
          else (case date_str of
                  JStr s \<Rightarrow>
                    (case days_since E s of
                       Some days_diff \<Rightarrow> Inr (days_diff < 7)
                     | None \<Rightarrow> Inr False)
                | _ \<Rightarrow> Inr False))"

text \<open>\<^verbatim>\<open>FraudDetector._suspicious_email_pattern\<close>\<close>

definition suspicious_email_pattern :: "string \<Rightarrow> bool" where
  "suspicious_email_pattern email =
     (if list_ex (\<lambda>domain. contains domain email) [''temp-mail'', ''throwaway'', ''guerrillamail'']
      then True
      else if search_digits_at email then True
      else False)"

text \<open>\<^verbatim>\<open>FraudDetector._rule_based_fraud_detection\<close>: the score starts at 0 and each rule
  that fires adds its weight, in the order of the source.\<close>

definition rule_based_fraud_detection :: "env \<Rightarrow> pydict \<Rightarrow> pydict \<Rightarrow> error + real" where
  "rule_based_fraud_detection E claim_analysis email_data =
     (case gt_number (dict_get claim_analysis ''claim_amount'' (JInt 0)) 1000000 of
        Inl e \<Rightarrow> Inl e
      | Inr high_amount \<Rightarrow>
     (let score1 = (if high_amount then 0 + 0.3 else 0::real) in
      case suspicious_date_pattern E (dict_get claim_analysis ''loss_date'' (JStr '''')) of
        Inl e \<Rightarrow> Inl e
      | Inr bad_date \<Rightarrow>
     (let score2 = (if bad_date then score1 + 0.2 else score1) in
      case str_lower (dict_get claim_analysis ''loss_location'' (JStr '''')) of
        Inl e \<Rightarrow> Inl e
      | Inr location \<Rightarrow>
     (let score3 = (if list_ex (\<lambda>pattern. contains pattern location) [''unknown'', ''tbd'', ''n/a'']
                    then score2 + 0.1 else score2) in
      case str_lower (dict_get email_data ''sender_email'' (JStr '''')) of
        Inl e \<Rightarrow> Inl e
      | Inr sender_email \<Rightarrow>
     (let score4 = (if suspicious_email_pattern sender_email then score3 + 0.2 else score3) in
      case str_lower (dict_get email_data ''subject'' (JStr '''')) of
        Inl e \<Rightarrow> Inl e
      | Inr subject \<Rightarrow>
     (let score5 = (if list_ex (\<lambda>word. contains word subject)
                         [''urgent'', ''immediate'', ''asap'', ''emergency'']
                    then score4 + 0.1 else score4)
      in Inr (min score5 1.0)))))))"

subsection \<open>More of Python: iteration, hashing, \<^verbatim>\<open>str\<close>, \<^verbatim>\<open>split\<close>, \<^verbatim>\<open>strip\<close>\<close>

text \<open>\<^verbatim>\<open>for x in v\<close> and \<^verbatim>\<open>xs.extend(v)\<close>: a list gives its elements, a string its
  characters, a dictionary its keys; anything else is not iterable.\<close>

fun py_iter :: "json \<Rightarrow> error + json list" where
  "py_iter (JList xs) = Inr xs"
| "py_iter (JStr s) = Inr (map (\<lambda>c. JStr [c]) s)"
| "py_iter (JObj kvs) = Inr (map (\<lambda>kv. JStr (fst kv)) kvs)"
| "py_iter _ = Inl TypeError"

text \<open>Lists and dictionaries cannot be hashed: they can be neither set elements nor
  dictionary keys.\<close>

fun hashable :: "json \<Rightarrow> bool" where
  "hashable (JList xs) = False"
| "hashable (JObj kvs) = False"
| "hashable _ = True"

text \<open>\<^verbatim>\<open>str(x)\<close>, as f-strings and \<^verbatim>\<open>str()\<close> format a value.\<close>

fun str_nat :: "nat \<Rightarrow> string" where
  "str_nat n =
     (if n < 10 then [''0123456789'' ! n]
      else str_nat (n div 10) @ [''0123456789'' ! (n mod 10)])"

declare str_nat.simps [simp del]

definition str_int :: "int \<Rightarrow> string" where
  "str_int i = (if i < 0 then CHR ''-'' # str_nat (nat (- i)) else str_nat (nat i))"

definition py_str :: "env \<Rightarrow> json \<Rightarrow> string" where
  "py_str E v =
     (case v of
        JStr s \<Rightarrow> s
      | JInt i \<Rightarrow> str_int i
      | JBool b \<Rightarrow> (if b then ''True'' else ''False'')
      | JNull \<Rightarrow> ''None''
      | _ \<Rightarrow> py_repr E v)"

text \<open>\<^verbatim>\<open>s.split(sep)\<close> for a separator that is not empty: the pieces between the
  occurrences of \<^verbatim>\<open>sep\<close>, found from left to right without overlap. \<open>skip\<close> counts the
  characters of an occurrence still to be passed over, \<open>acc\<close> is the piece being read,
  reversed.\<close>

fun split_from :: "string \<Rightarrow> nat \<Rightarrow> string \<Rightarrow> string \<Rightarrow> string list" where
  "split_from sep skip acc [] = [rev acc]"
| "split_from sep (Suc k) acc (c # cs) = split_from sep k acc cs"
| "split_from sep 0 acc (c # cs) =
     (if starts_with sep (c # cs) then rev acc # split_from sep (length sep - 1) [] cs
      else split_from sep 0 (c # acc) cs)"

definition py_split :: "string \<Rightarrow> string \<Rightarrow> string list" where
  "py_split s sep = split_from sep 0 [] s"

text \<open>\<^verbatim>\<open>s.strip()\<close>: white space is removed at both ends.\<close>

definition is_space :: "char \<Rightarrow> bool" where
  "is_space c =
     (c \<in> set [CHR 0x09, CHR 0x0A, CHR 0x0B, CHR 0x0C, CHR 0x0D,
                CHR 0x1C, CHR 0x1D, CHR 0x1E, CHR 0x1F, CHR 0x20])"

definition strip :: "string \<Rightarrow> string" where
  "strip s = rev (dropWhile is_space (rev (dropWhile is_space s)))"

text \<open>The text between the first \<^verbatim>\<open>```json\<close> and the next \<^verbatim>\<open>```\<close>:
  \<^verbatim>\<open>text.split('```json')[1].split('```')[0].strip()\<close>. Both indices exist when the
  marker occurs in the text, which the callers test first.\<close>

definition json_marker :: string where
  "json_marker = ''```json''"

definition fenced_json :: "string \<Rightarrow> string" where
  "fenced_json text = strip (hd (py_split (py_split text json_marker ! 1) ''```''))"

definition join_lines :: "string list \<Rightarrow> string" where
  "join_lines ls = concat (map (\<lambda>l. l @ [CHR 0x0A]) ls)"

subsection \<open>The semantic assessment and the combined score\<close>

text \<open>\<^verbatim>\<open>FraudDetector._parse_fraud_analysis\<close>: whatever \<^verbatim>\<open>json.loads\<close> returns is
  returned, a dictionary or not; the bare \<^verbatim>\<open>except\<close> answers a parse error.\<close>

definition parse_fraud_analysis :: "env \<Rightarrow> string \<Rightarrow> json" where
  "parse_fraud_analysis E analysis_text =
     (if contains json_marker analysis_text then
        (case json_loads E (fenced_json analysis_text) of
           Some v \<Rightarrow> v
         | None \<Rightarrow>
             JObj [(''fraud_indicators'', JList [JStr ''Analysis parsing error'']),
                   (''confidence'', JFloat 0.5),
                   (''recommendations'', JList [JStr ''System error - manual review required'']),
                   (''raw_analysis'', JStr analysis_text)])
      else
        JObj [(''fraud_indicators'', JList [JStr ''Analysis completed but parsing failed'']),
              (''confidence'', JFloat 0.5),
              (''recommendations'', JList [JStr ''Manual review recommended'']),
              (''raw_analysis'', JStr analysis_text)])"

text \<open>\<^verbatim>\<open>FraudDetector._ai_based_fraud_detection\<close>. Nothing in its \<^verbatim>\<open>try\<close> block raises on
  JSON values: \<^verbatim>\<open>json.dumps\<close> and the f-string format any of them, the client catches
  its own exceptions and the parser has a bare \<^verbatim>\<open>except\<close>.\<close>

definition fraud_prompt :: "env \<Rightarrow> pydict \<Rightarrow> pydict \<Rightarrow> string" where
  "fraud_prompt E claim_analysis email_data =
     join_lines
       ['''',
        ''            '' @ FRAUD_DETECTION_PROMPT E,
        ''            '',
        ''            CLAIM ANALYSIS DATA:'',
        ''            '' @ json_dumps E (JObj claim_analysis),
        ''            '',
        ''            EMAIL CONTEXT:'',
        ''            - Subject: '' @ py_str E (dict_get email_data ''subject'' (JStr '''')),
        ''            - Sender: '' @ py_str E (dict_get email_data ''sender_email'' (JStr '''')),
        ''            - Date: '' @ py_str E (dict_get email_data ''date'' (JStr '''')),
        ''            '',
        ''            Analyze this marine insurance claim for potential fraud indicators and provide a detailed assessment.'']
     @ ''            ''"

definition ai_based_fraud_detection :: "env \<Rightarrow> service \<Rightarrow> pydict \<Rightarrow> pydict \<Rightarrow> json" where
  "ai_based_fraud_detection E svc claim_analysis email_data =
     parse_fraud_analysis E (svc (fraud_prompt E claim_analysis email_data))"

text \<open>\<^verbatim>\<open>FraudDetector._combine_fraud_scores\<close>: 60% semantic, 40% rules, capped at 1. The
  product \<^verbatim>\<open>ai_score * 0.6\<close> is a TypeError when the confidence is not a number.\<close>

definition combine_fraud_scores :: "real \<Rightarrow> json \<Rightarrow> error + real" where
  "combine_fraud_scores rule_score ai_analysis =
     (let ai_score = (case ai_analysis of
                        JObj d \<Rightarrow> dict_get d ''confidence'' (JFloat 0.5)
                      | _ \<Rightarrow> JFloat 0.5)
      in case num_val ai_score of
           Inl e \<Rightarrow> Inl e
         | Inr a \<Rightarrow> Inr (min (a * 0.6 + rule_score * 0.4) 1.0))"

text \<open>\<^verbatim>\<open>FraudDetector._get_risk_level\<close>\<close>

definition get_risk_level :: "real \<Rightarrow> string" where
  "get_risk_level score =
     (if score \<ge> 0.8 then ''HIGH''
      else if score \<ge> 0.6 then ''MEDIUM''
      else if score \<ge> 0.4 then ''LOW''
      else ''VERY LOW'')"

text \<open>\<^verbatim>\<open>FraudDetector._extract_red_flags\<close>\<close>

definition extract_red_flags :: "pydict \<Rightarrow> json \<Rightarrow> error + json list" where
  "extract_red_flags claim_analysis ai_analysis =
     (case gt_number (dict_get claim_analysis ''claim_amount'' (JInt 0)) 1000000 of
        Inl e \<Rightarrow> Inl e
      | Inr high_amount \<Rightarrow>
     (let red_flags = (if high_amount then [JStr ''Exceptionally high claim amount''] else []) in
      case ai_analysis of
        JObj d \<Rightarrow>
          (case py_iter (dict_get d ''fraud_indicators'' (JList [])) of
             Inl e \<Rightarrow> Inl e
           | Inr indicators \<Rightarrow> Inr (take 10 (red_flags @ indicators)))
      | _ \<Rightarrow> Inr (take 10 red_flags)))"

text \<open>\<^verbatim>\<open>FraudDetector._generate_fraud_recommendations\<close>: \<^verbatim>\<open>set()\<close> is a TypeError when an
  element cannot be hashed.\<close>

definition generate_fraud_recommendations :: "env \<Rightarrow> real \<Rightarrow> json \<Rightarrow> error + json list" where
  "generate_fraud_recommendations E score ai_analysis =
     (let recommendations =
            (if score > FRAUD_THRESHOLD E then
               [JStr ''Immediate investigation required'',
                JStr ''Contact insured party for verification'',
                JStr ''Review supporting documentation carefully'',
                JStr ''Consider involving special investigations unit'']
             else if score > 0.5 then
               [JStr ''Enhanced documentation review recommended'',
                JStr ''Verify loss details with independent sources'',
                JStr ''Check claim history of insured party'']
             else [JStr ''Standard processing procedures applicable''])
      in case (case ai_analysis of
                 JObj d \<Rightarrow> py_iter (dict_get d ''recommendations'' (JList []))
               | _ \<Rightarrow> Inr []) of
           Inl e \<Rightarrow> Inl e
         | Inr ai_recommendations \<Rightarrow>
             (let all_recs = recommendations @ ai_recommendations
              in if list_all hashable all_recs then Inr (take 5 (set_order E all_recs))
                 else Inl TypeError))"

subsection \<open>The assessment\<close>

record fraud_result =
  fraud_score :: real
  risk_level :: string
  rule_based_score :: real
  ai_analysis :: json
  red_flags :: "json list"
  recommendations :: "json list"
  detection_methods :: "string list"

text \<open>\<^verbatim>\<open>FraudDetector._get_default_fraud_analysis\<close>\<close>

definition get_default_fraud_analysis :: fraud_result where
  "get_default_fraud_analysis =
     \<lparr> fraud_score = 0.5,
       risk_level = ''UNKNOWN'',
       rule_based_score = 0.0,
       ai_analysis = JObj [(''error'', JStr ''Analysis failed'')],
       red_flags = [JStr ''System error in fraud detection''],
       recommendations = [JStr ''Manual fraud assessment required''],
       detection_methods = [''failed''] \<rparr>"

text \<open>The \<^verbatim>\<open>try\<close> block of \<^verbatim>\<open>FraudDetector.detect_fraud\<close>: \<open>Inl\<close> is an exception raised
  inside it.\<close>

definition detect_fraud_try :: "env \<Rightarrow> service \<Rightarrow> pydict \<Rightarrow> pydict \<Rightarrow> error + fraud_result" where
  "detect_fraud_try E svc claim_analysis email_data =
     (case rule_based_fraud_detection E claim_analysis email_data of
        Inl e \<Rightarrow> Inl e
      | Inr rule_score \<Rightarrow>
     (let ai_based_analysis = ai_based_fraud_detection E svc claim_analysis email_data in
      case combine_fraud_scores rule_score ai_based_analysis of
        Inl e \<Rightarrow> Inl e
      | Inr final_score \<Rightarrow>
     (case extract_red_flags claim_analysis ai_based_analysis of
        Inl e \<Rightarrow> Inl e
      | Inr flags \<Rightarrow>
     (case generate_fraud_recommendations E final_score ai_based_analysis of
        Inl e \<Rightarrow> Inl e
      | Inr recs \<Rightarrow>
          Inr \<lparr> fraud_score = final_score,
                risk_level = get_risk_level final_score,
                rule_based_score = rule_score,
                ai_analysis = ai_based_analysis,
                red_flags = flags,
                recommendations = recs,
                detection_methods = [''rule_based'', ''ai_analysis''] \<rparr>))))"

text \<open>\<^verbatim>\<open>FraudDetector.detect_fraud\<close>: the \<^verbatim>\<open>except\<close> clause answers the default
  assessment.\<close>

definition detect_fraud :: "env \<Rightarrow> service \<Rightarrow> pydict \<Rightarrow> pydict \<Rightarrow> fraud_result" where
  "detect_fraud E svc claim_analysis email_data =
     (case detect_fraud_try E svc claim_analysis email_data of
        Inr fraud_result \<Rightarrow> fraud_result
      | Inl e \<Rightarrow> get_default_fraud_analysis)"

section \<open>Text similarity: \<^verbatim>\<open>difflib.SequenceMatcher(None, a, b).ratio()\<close>\<close>

text \<open>
  \<^verbatim>\<open>_calculate_similarity\<close> is one call into Python's standard library, so what it
  returns is what \<^verbatim>\<open>difflib\<close> computes. This section follows \<^verbatim>\<open>difflib.py\<close> of
  CPython 3: \<^verbatim>\<open>__chain_b\<close>, \<^verbatim>\<open>find_longest_match\<close>, \<^verbatim>\<open>get_matching_blocks\<close>,
  \<^verbatim>\<open>ratio\<close> and \<^verbatim>\<open>_calculate_ratio\<close>, for \<^verbatim>\<open>isjunk = None\<close> and
  \<^verbatim>\<open>autojunk = True\<close>, as the repository calls it.

  \<^verbatim>\<open>__chain_b\<close> maps each element of \<open>b\<close> to the increasing list of its positions and
  then removes the popular elements: in a \<open>b\<close> of 200 elements or more, those that occur
  more than \<open>len(b) // 100 + 1\<close> times. \<open>b2j b elt\<close> is \<^verbatim>\<open>b2j.get(elt, [])\<close>. With no
  junk predicate the junk set is empty, so of the four \<^verbatim>\<open>while\<close> loops that extend the
  best block the two asking for junk never run.
\<close>

definition popular :: "'a list \<Rightarrow> 'a \<Rightarrow> bool" where
  "popular b elt = (length b \<ge> 200 \<and> count_list b elt > length b div 100 + 1)"

definition b2j :: "'a list \<Rightarrow> 'a \<Rightarrow> nat list" where
  "b2j b elt = (if popular b elt then [] else filter (\<lambda>j. b ! j = elt) [0..<length b])"

type_synonym best = "nat \<times> nat \<times> nat"

text \<open>The inner loop of \<^verbatim>\<open>find_longest_match\<close> over the positions \<open>j\<close> of \<open>a[i]\<close> in
  \<open>b\<close>: \<^verbatim>\<open>continue\<close> below \<open>blo\<close>, \<^verbatim>\<open>break\<close> from \<open>bhi\<close> on. The dictionaries
  \<open>j2len\<close> and \<open>newj2len\<close> are read with default 0 and hold positive lengths only, so
  they are functions that are 0 where the dictionary has no key; the key \<open>j - 1\<close> of
  \<open>j = 0\<close> is never present.\<close>

fun scan_row :: "(nat \<Rightarrow> nat) \<Rightarrow> nat \<Rightarrow> nat \<Rightarrow> nat \<Rightarrow> nat list \<Rightarrow>
    (nat \<Rightarrow> nat) \<times> best \<Rightarrow> (nat \<Rightarrow> nat) \<times> best" where
  "scan_row j2len blo bhi i [] st = st"
| "scan_row j2len blo bhi i (j # js) (newj2len, besti, bestj, bestsize) =
     (if j < blo then scan_row j2len blo bhi i js (newj2len, besti, bestj, bestsize)
      else if j \<ge> bhi then (newj2len, besti, bestj, bestsize)
      else
        (let k = (if j = 0 then 0 else j2len (j - 1)) + 1 in
         if k > bestsize
         then scan_row j2len blo bhi i js (newj2len(j := k), i + 1 - k, j + 1 - k, k)
         else scan_row j2len blo bhi i js (newj2len(j := k), besti, bestj, bestsize)))"

text \<open>The outer loop, \<^verbatim>\<open>for i in range(alo, ahi)\<close>.\<close>

fun scan_rows :: "'a list \<Rightarrow> 'a list \<Rightarrow> nat \<Rightarrow> nat \<Rightarrow> nat list \<Rightarrow>
    (nat \<Rightarrow> nat) \<times> best \<Rightarrow> (nat \<Rightarrow> nat) \<times> best" where
  "scan_rows a b blo bhi [] st = st"
| "scan_rows a b blo bhi (i # is) (j2len, bst) =
     scan_rows a b blo bhi is (scan_row j2len blo bhi i (b2j b (a ! i)) (\<lambda>j. 0, bst))"

text \<open>The two loops that extend the best block by equal elements, to the left and to the
  right.\<close>

function extend_left :: "'a list \<Rightarrow> 'a list \<Rightarrow> nat \<Rightarrow> nat \<Rightarrow> best \<Rightarrow> best" where
  "extend_left a b alo blo (besti, bestj, bestsize) =
     (if besti > alo \<and> bestj > blo \<and> a ! (besti - 1) = b ! (bestj - 1)
      then extend_left a b alo blo (besti - 1, bestj - 1, bestsize + 1)
      else (besti, bestj, bestsize))"
  by pat_completeness auto
termination
  by (relation "measure (\<lambda>(a, b, alo, blo, besti, bestj, bestsize). besti)") auto

function extend_right :: "'a list \<Rightarrow> 'a list \<Rightarrow> nat \<Rightarrow> nat \<Rightarrow> best \<Rightarrow> best" where
  "extend_right a b ahi bhi (besti, bestj, bestsize) =
     (if besti + bestsize < ahi \<and> bestj + bestsize < bhi \<and>
         a ! (besti + bestsize) = b ! (bestj + bestsize)
      then extend_right a b ahi bhi (besti, bestj, bestsize + 1)
      else (besti, bestj, bestsize))"
  by pat_completeness auto
termination
  by (relation "measure (\<lambda>(a, b, ahi, bhi, besti, bestj, bestsize). ahi - (besti + bestsize))") auto

declare extend_left.simps [simp del] extend_right.simps [simp del]

definition find_longest_match :: "'a list \<Rightarrow> 'a list \<Rightarrow> nat \<Rightarrow> nat \<Rightarrow> nat \<Rightarrow> nat \<Rightarrow> best" where
  "find_longest_match a b alo ahi blo bhi =
     extend_right a b ahi bhi
       (extend_left a b alo blo
          (snd (scan_rows a b blo bhi [alo..<ahi] (\<lambda>j. 0, alo, blo, 0))))"

text \<open>The loop of \<^verbatim>\<open>get_matching_blocks\<close>. The queue is a stack: \<^verbatim>\<open>queue.pop()\<close> takes
  the region appended last, which is the head of the list here. The blocks are then
  sorted, adjacent ones are merged and a block of size 0 is appended; none of this
  changes the sum of the sizes, which is all that \<^verbatim>\<open>ratio\<close> reads.\<close>

function matching_blocks_loop ::
    "'a list \<Rightarrow> 'a list \<Rightarrow> (nat \<times> nat \<times> nat \<times> nat) list \<Rightarrow> best list \<Rightarrow> best list" where
  "matching_blocks_loop a b [] matching_blocks = matching_blocks"
| "matching_blocks_loop a b ((alo, ahi, blo, bhi) # queue) matching_blocks =
     (case find_longest_match a b alo ahi blo bhi of
        (i, j, k) \<Rightarrow>
          if k \<noteq> 0 then
            matching_blocks_loop a b
              ((if i + k < ahi \<and> j + k < bhi then [(i + k, ahi, j + k, bhi)] else []) @
               (if alo < i \<and> blo < j then [(alo, i, blo, j)] else []) @ queue)
              (matching_blocks @ [(i, j, k)])
          else matching_blocks_loop a b queue matching_blocks)"
  by pat_completeness auto

text \<open>The invariant of the search that bounds the best block, for the termination of the
  loop: a block of positive size lies inside the region searched.\<close>

definition row_ok :: "nat \<Rightarrow> nat \<Rightarrow> (nat \<Rightarrow> nat) \<Rightarrow> bool" where
  "row_ok n blo f = (\<forall>j. f j \<le> n \<and> (f j = 0 \<or> f j + blo \<le> j + 1))"

definition best_ok :: "nat \<Rightarrow> nat \<Rightarrow> nat \<Rightarrow> nat \<Rightarrow> best \<Rightarrow> bool" where
  "best_ok alo ahi blo bhi bst =
     (case bst of (besti, bestj, bestsize) \<Rightarrow>
        (bestsize = 0 \<and> besti = alo \<and> bestj = blo) \<or>
        (0 < bestsize \<and> alo \<le> besti \<and> besti + bestsize \<le> ahi \<and>
         blo \<le> bestj \<and> bestj + bestsize \<le> bhi))"

lemma scan_row_ok:
  assumes "alo \<le> i" "i < ahi" "row_ok (i - alo) blo j2len"
  shows "row_ok (i + 1 - alo) blo new \<Longrightarrow> best_ok alo ahi blo bhi bst \<Longrightarrow>
         scan_row j2len blo bhi i js (new, bst) = (new', bst') \<Longrightarrow>
         row_ok (i + 1 - alo) blo new' \<and> best_ok alo ahi blo bhi bst'"
proof (induction js arbitrary: new bst)
  case Nil
  then show ?case by simp
next
  case (Cons j js)
  obtain besti bestj bestsize where bst: "bst = (besti, bestj, bestsize)"
    by (cases bst) auto
  show ?case
  proof (cases "j < blo")
    case True
    with Cons bst show ?thesis by simp
  next
    case lo: False
    show ?thesis
    proof (cases "j \<ge> bhi")
      case True
      with lo Cons bst show ?thesis by simp
    next
      case hi: False
      define k where "k = (if j = 0 then 0 else j2len (j - 1)) + 1"
      have k1: "k \<le> i + 1 - alo"
        using assms(1,3) by (auto simp: k_def row_ok_def Suc_diff_le)
      have k2: "k + blo \<le> j + 1"
      proof (cases "j = 0")
        case True
        with lo show ?thesis by (simp add: k_def)
      next
        case False
        then have "j2len (j - 1) = 0 \<or> j2len (j - 1) + blo \<le> j"
          using assms(3) by (auto simp: row_ok_def dest: spec [of _ "j - 1"])
        with False lo show ?thesis by (auto simp: k_def)
      qed
      have new_ok: "row_ok (i + 1 - alo) blo (new(j := k))"
        using Cons.prems(1) k1 k2 by (auto simp: row_ok_def)
      have kpos: "0 < k" by (simp add: k_def)
      have best_new: "best_ok alo ahi blo bhi (i + 1 - k, j + 1 - k, k)"
        using k1 k2 kpos assms(1,2) hi by (auto simp: best_ok_def)
      show ?thesis
      proof (cases "k > bestsize")
        case True
        with lo hi bst Cons.prems(3)
        have "scan_row j2len blo bhi i js (new(j := k), i + 1 - k, j + 1 - k, k) = (new', bst')"
          by (simp add: k_def Let_def)
        from Cons.IH [OF new_ok best_new this] show ?thesis .
      next
        case False
        with lo hi bst Cons.prems(3)
        have "scan_row j2len blo bhi i js (new(j := k), bst) = (new', bst')"
          by (simp add: k_def Let_def)
        from Cons.IH [OF new_ok Cons.prems(2) this] show ?thesis .
      qed
    qed
  qed
qed

lemma scan_rows_ok:
  "alo \<le> i0 \<Longrightarrow> row_ok (i0 - alo) blo j2len \<Longrightarrow> best_ok alo ahi blo bhi bst \<Longrightarrow>
   best_ok alo ahi blo bhi (snd (scan_rows a b blo bhi [i0..<ahi] (j2len, bst)))"
proof (induction "ahi - i0" arbitrary: i0 j2len bst)
  case 0
  then show ?case by simp
next
  case (Suc n)
  then have lt: "i0 < ahi" by simp
  obtain new' bst' where step:
    "scan_row j2len blo bhi i0 (b2j b (a ! i0)) (\<lambda>j. 0, bst) = (new', bst')"
    by (cases "scan_row j2len blo bhi i0 (b2j b (a ! i0)) (\<lambda>j. 0, bst)") auto
  have "row_ok (i0 + 1 - alo) blo (\<lambda>j. 0)" by (simp add: row_ok_def)
  from scan_row_ok [OF Suc.prems(1) lt Suc.prems(2) this Suc.prems(3) step]
  have ok: "row_ok (Suc i0 - alo) blo new'" "best_ok alo ahi blo bhi bst'" by simp_all
  have "n = ahi - Suc i0" using Suc.hyps(2) by simp
  from Suc.hyps(1) [OF this _ ok] Suc.prems(1)
  have "best_ok alo ahi blo bhi (snd (scan_rows a b blo bhi [Suc i0..<ahi] (new', bst')))"
    by simp
  with lt step show ?case by (simp add: upt_conv_Cons)
qed

lemma extend_left_ok:
  "best_ok alo ahi blo bhi bst \<Longrightarrow> best_ok alo ahi blo bhi (extend_left a b alo blo bst)"
proof (induction a b alo blo bst rule: extend_left.induct)
  case (1 a b alo blo besti bestj bestsize)
  show ?case
  proof (cases "besti > alo \<and> bestj > blo \<and> a ! (besti - 1) = b ! (bestj - 1)")
    case True
    with "1.prems" have "best_ok alo ahi blo bhi (besti - 1, bestj - 1, bestsize + 1)"
      by (auto simp: best_ok_def)
    with True "1.IH" show ?thesis by (subst extend_left.simps) simp
  next
    case False
    with "1.prems" show ?thesis by (subst extend_left.simps) auto
  qed
qed

lemma extend_right_ok:
  "best_ok alo ahi blo bhi bst \<Longrightarrow> best_ok alo ahi blo bhi (extend_right a b ahi bhi bst)"
proof (induction a b ahi bhi bst rule: extend_right.induct)
  case (1 a b ahi bhi besti bestj bestsize)
  show ?case
  proof (cases "besti + bestsize < ahi \<and> bestj + bestsize < bhi \<and>
         a ! (besti + bestsize) = b ! (bestj + bestsize)")
    case True
    with "1.prems" have "best_ok alo ahi blo bhi (besti, bestj, bestsize + 1)"
      by (auto simp: best_ok_def)
    with True "1.IH" show ?thesis by (subst extend_right.simps) simp
  next
    case False
    with "1.prems" show ?thesis by (subst extend_right.simps) auto
  qed
qed

lemma find_longest_match_ok:
  "best_ok alo ahi blo bhi (find_longest_match a b alo ahi blo bhi)"
  unfolding find_longest_match_def
  by (intro extend_right_ok extend_left_ok scan_rows_ok) (simp_all add: row_ok_def best_ok_def)

lemma find_longest_match_bounds:
  assumes "find_longest_match a b alo ahi blo bhi = (i, j, k)" "k \<noteq> 0"
  shows "alo \<le> i" "i + k \<le> ahi" "blo \<le> j" "j + k \<le> bhi"
  using find_longest_match_ok [of alo ahi blo bhi a b] assms by (auto simp: best_ok_def)

termination matching_blocks_loop
proof (relation "measure (\<lambda>(a, b, queue, blocks).
    sum_list (map (\<lambda>(alo, ahi, blo, bhi). 2 * (ahi - alo) + 1) queue))", goal_cases)
  case 1
  show ?case by simp
next
  case (2 a b alo ahi blo bhi queue matching_blocks i y j k)
  then have "find_longest_match a b alo ahi blo bhi = (i, j, k)" by simp
  from find_longest_match_bounds [OF this \<open>k \<noteq> 0\<close>] \<open>k \<noteq> 0\<close> show ?case by auto
next
  case 3
  then show ?case by simp
qed

text \<open>\<^verbatim>\<open>_calculate_ratio\<close> and \<^verbatim>\<open>ratio\<close>: twice the number of matched elements over the
  total length, and 1 for two empty sequences.\<close>

definition calculate_ratio :: "nat \<Rightarrow> nat \<Rightarrow> real" where
  "calculate_ratio matches len = (if len \<noteq> 0 then 2.0 * real matches / real len else 1.0)"

definition ratio :: "'a list \<Rightarrow> 'a list \<Rightarrow> real" where
  "ratio a b =
     calculate_ratio
       (sum_list (map (\<lambda>(i, j, k). k) (matching_blocks_loop a b [(0, length a, 0, length b)] [])))
       (length a + length b)"

text \<open>Invariants of the search when a sequence is compared with itself, and the size of
  the regions still to be searched. \<^term>\<open>cell j2len j\<close> is the length the inner loop gives
  a match ending at \<^term>\<open>j\<close>; \<^term>\<open>clean_run a j\<close> is the number of consecutive
  elements ending at \<^term>\<open>j\<close> that the popularity heuristic has kept. On the diagonal the
  row of lengths is bounded by the clean runs, reaches it at the row's own index, and the best
  block found so far starts at the same index in both sequences.\<close>

definition cell :: "(nat \<Rightarrow> nat) \<Rightarrow> nat \<Rightarrow> nat" where
  "cell j2len j = (if j = 0 then 0 else j2len (j - 1)) + 1"

fun clean_run :: "'a list \<Rightarrow> nat \<Rightarrow> nat" where
  "clean_run a 0 = (if popular a (a ! 0) then 0 else 1)"
| "clean_run a (Suc j) = (if popular a (a ! Suc j) then 0 else clean_run a j + 1)"

definition diag_inv :: "'a list \<Rightarrow> nat \<Rightarrow> (nat \<Rightarrow> nat) \<times> best \<Rightarrow> bool" where
  "diag_inv a i st =
     (case st of (j2len, besti, bestj, bestsize) \<Rightarrow>
        besti = bestj \<and>
        (\<forall>j. j2len j \<le> clean_run a j) \<and>
        (i = 0 \<longrightarrow> (\<forall>j. j2len j = 0)) \<and>
        (0 < i \<longrightarrow> j2len (i - 1) = clean_run a (i - 1) \<and> (\<forall>j. j2len j \<le> clean_run a (i - 1))) \<and>
        (\<forall>j < i. clean_run a j \<le> bestsize))"

definition region_sizes :: "(nat \<times> nat \<times> nat \<times> nat) list \<Rightarrow> nat \<times> nat" where
  "region_sizes queue =
     (sum_list (map (\<lambda>(alo, ahi, blo, bhi). ahi - alo) queue),
      sum_list (map (\<lambda>(alo, ahi, blo, bhi). bhi - blo) queue))"

section \<open>Duplicate detector\<close>

subsection \<open>The registry and Python's comparisons\<close>

text \<open>
  The registry \<^verbatim>\<open>processed_claims\<close> is a dictionary in insertion order. Its keys are
  what the pipeline stores as claim number: strings in a registry read from the file,
  any value that can be hashed in memory. Its values are the entries the pipeline
  writes, dictionaries. Two keys are the same key when they are equal in Python: equal
  strings, \<^verbatim>\<open>None\<close> and \<^verbatim>\<open>None\<close>, or numbers of the same value (\<^verbatim>\<open>1\<close>, \<^verbatim>\<open>1.0\<close> and
  \<^verbatim>\<open>True\<close> are one key).
\<close>

type_synonym registry = "(json \<times> pydict) list"

definition key_eq :: "json \<Rightarrow> json \<Rightarrow> bool" where
  "key_eq a b =
     (case (a, b) of
        (JStr s, JStr t) \<Rightarrow> s = t
      | (JNull, JNull) \<Rightarrow> True
      | _ \<Rightarrow> (case (num_val a, num_val b) of (Inr x, Inr y) \<Rightarrow> x = y | _ \<Rightarrow> False))"

text \<open>\<^verbatim>\<open>key in d\<close> and \<^verbatim>\<open>d[key] = value\<close>: both are a TypeError for a key that cannot be
  hashed. Assigning to a key that is present replaces the value where it stands.\<close>

definition reg_member :: "registry \<Rightarrow> json \<Rightarrow> error + bool" where
  "reg_member reg k =
     (if hashable k then Inr (list_ex (\<lambda>kv. key_eq k (fst kv)) reg) else Inl TypeError)"

fun reg_put :: "registry \<Rightarrow> json \<Rightarrow> pydict \<Rightarrow> registry" where
  "reg_put [] k v = [(k, v)]"
| "reg_put ((k', v') # reg) k v =
     (if key_eq k k' then (k', v) # reg else (k', v') # reg_put reg k v)"

definition reg_set :: "registry \<Rightarrow> json \<Rightarrow> pydict \<Rightarrow> error + registry" where
  "reg_set reg k v = (if hashable k then Inr (reg_put reg k v) else Inl TypeError)"

text \<open>\<^verbatim>\<open>x > y\<close>: on two numbers the order of their values; on any other pair what Python
  does (an order on two strings or two lists, a TypeError otherwise) is left to the
  environment.\<close>

definition py_gt :: "env \<Rightarrow> json \<Rightarrow> json \<Rightarrow> error + bool" where
  "py_gt E x y =
     (case (num_val x, num_val y) of
        (Inr a, Inr b) \<Rightarrow> Inr (a > b)
      | _ \<Rightarrow> rich_gt E x y)"

text \<open>\<^verbatim>\<open>sep.join(parts)\<close>: a TypeError unless every part is a string.\<close>

fun str_join :: "string \<Rightarrow> json list \<Rightarrow> error + string" where
  "str_join sep [] = Inr []"
| "str_join sep [JStr s] = Inr s"
| "str_join sep (JStr s # x # xs) =
     (case str_join sep (x # xs) of Inl e \<Rightarrow> Inl e | Inr rest \<Rightarrow> Inr (s @ sep @ rest))"
| "str_join sep (_ # xs) = Inl TypeError"

fun join_strings :: "string \<Rightarrow> string list \<Rightarrow> string" where
  "join_strings sep [] = []"
| "join_strings sep [s] = s"
| "join_strings sep (s # t # ts) = s @ sep @ join_strings sep (t # ts)"

text \<open>The text of an exception, \<^verbatim>\<open>str(e)\<close>, is represented by the name of its class.\<close>

fun str_error :: "error \<Rightarrow> string" where
  "str_error TypeError = ''TypeError''"
| "str_error AttributeError = ''AttributeError''"
| "str_error KeyError = ''KeyError''"
| "str_error ValueError = ''ValueError''"
| "str_error ReportError = ''ReportError''"

subsection \<open>Exact pass\<close>

text \<open>\<^verbatim>\<open>DuplicateDetector._create_claim_fingerprint\<close>\<close>

definition fingerprint_text :: "env \<Rightarrow> pydict \<Rightarrow> error + string" where
  "fingerprint_text E claim =
     str_join ''|''
       [dict_get claim ''claim_number'' (JStr ''''),
        dict_get claim ''insured_party'' (JStr ''''),
        JStr (py_str E (dict_get claim ''claim_amount'' (JInt 0))),
        dict_get claim ''loss_date'' (JStr ''''),
        dict_get claim ''loss_location'' (JStr '''')]"

definition create_claim_fingerprint :: "env \<Rightarrow> pydict \<Rightarrow> error + string" where
  "create_claim_fingerprint E claim =
     (case fingerprint_text E claim of
        Inl e \<Rightarrow> Inl e
      | Inr text \<Rightarrow> Inr (md5_hexdigest E text))"

definition exact_match :: "json \<Rightarrow> json" where
  "exact_match claim_id =
     JObj [(''claim_id'', claim_id), (''match_type'', JStr ''exact''),
           (''confidence'', JFloat 1.0),
           (''matching_fields'', JList [JStr ''full_claim_fingerprint''])]"

text \<open>\<^verbatim>\<open>DuplicateDetector._check_exact_matches\<close>: the loop over the registry, then the
  function. The first fingerprint that raises ends the pass.\<close>

fun exact_matches_loop :: "env \<Rightarrow> string \<Rightarrow> registry \<Rightarrow> error + json list" where
  "exact_matches_loop E current_fingerprint [] = Inr []"
| "exact_matches_loop E current_fingerprint ((claim_id, existing_claim) # rest) =
     (case create_claim_fingerprint E existing_claim of
        Inl e \<Rightarrow> Inl e
      | Inr existing_fingerprint \<Rightarrow>
          (case exact_matches_loop E current_fingerprint rest of
             Inl e \<Rightarrow> Inl e
           | Inr matches \<Rightarrow>
               Inr (if current_fingerprint = existing_fingerprint
                    then exact_match claim_id # matches else matches)))"

definition check_exact_matches :: "env \<Rightarrow> pydict \<Rightarrow> registry \<Rightarrow> error + json list" where
  "check_exact_matches E current_claim processed_claims =
     (case create_claim_fingerprint E current_claim of
        Inl e \<Rightarrow> Inl e
      | Inr current_fingerprint \<Rightarrow> exact_matches_loop E current_fingerprint processed_claims)"

subsection \<open>Fuzzy pass\<close>

text \<open>\<^verbatim>\<open>DuplicateDetector._get_claim_text\<close>: the parts that are true are formatted and
  joined by a blank.\<close>

definition get_claim_text :: "env \<Rightarrow> pydict \<Rightarrow> string" where
  "get_claim_text E claim =
     join_strings '' ''
       (map (py_str E)
          (filter truthy
             [dict_get claim ''claim_number'' (JStr ''''),
              dict_get claim ''insured_party'' (JStr ''''),
              dict_get claim ''loss_description'' (JStr ''''),
              dict_get claim ''loss_location'' (JStr ''''),
              JStr (py_str E (dict_get claim ''claim_amount'' (JInt 0)))]))"

text \<open>\<^verbatim>\<open>DuplicateDetector._calculate_similarity\<close>\<close>

definition calculate_similarity :: "string \<Rightarrow> string \<Rightarrow> real" where
  "calculate_similarity text1 text2 = ratio (lower text1) (lower text2)"

definition similar_match :: "json \<Rightarrow> real \<Rightarrow> json" where
  "similar_match claim_id similarity =
     JObj [(''claim_id'', claim_id), (''match_type'', JStr ''similar''),
           (''confidence'', JFloat similarity),
           (''matching_fields'', JList [JStr ''claim_content''])]"

text \<open>\<^verbatim>\<open>DuplicateDetector._check_similar_matches\<close>\<close>

fun similar_matches_loop :: "env \<Rightarrow> string \<Rightarrow> registry \<Rightarrow> json list" where
  "similar_matches_loop E current_text [] = []"
| "similar_matches_loop E current_text ((claim_id, existing_claim) # rest) =
     (let similarity = calculate_similarity current_text (get_claim_text E existing_claim)
      in if similarity > DUPLICATE_THRESHOLD E
         then similar_match claim_id similarity # similar_matches_loop E current_text rest
         else similar_matches_loop E current_text rest)"

definition check_similar_matches :: "env \<Rightarrow> pydict \<Rightarrow> registry \<Rightarrow> json list" where
  "check_similar_matches E current_claim processed_claims =
     similar_matches_loop E (get_claim_text E current_claim) processed_claims"

subsection \<open>Semantic pass\<close>

text \<open>\<^verbatim>\<open>DuplicateDetector._parse_ai_duplicate_result\<close>. The loop over the matches of the
  answer: an element that is not a dictionary has no \<^verbatim>\<open>get\<close>, an identifier that cannot
  be hashed cannot be looked up.\<close>

definition ai_match :: "pydict \<Rightarrow> json \<Rightarrow> json" where
  "ai_match m claim_id =
     JObj [(''claim_id'', claim_id), (''match_type'', JStr ''ai_detected''),
           (''confidence'', dict_get m ''confidence'' (JFloat 0.7)),
           (''matching_fields'', dict_get m ''matching_fields'' (JList [JStr ''ai_analysis'']))]"

fun ai_matches_loop :: "registry \<Rightarrow> json list \<Rightarrow> error + json list" where
  "ai_matches_loop processed_claims [] = Inr []"
| "ai_matches_loop processed_claims (JObj m # rest) =
     (let claim_id = dict_get m ''claim_id'' JNull in
      case reg_member processed_claims claim_id of
        Inl e \<Rightarrow> Inl e
      | Inr present \<Rightarrow>
          (case ai_matches_loop processed_claims rest of
             Inl e \<Rightarrow> Inl e
           | Inr matches \<Rightarrow> Inr (if present then ai_match m claim_id # matches else matches)))"
| "ai_matches_loop processed_claims (_ # rest) = Inl AttributeError"

text \<open>The \<^verbatim>\<open>try\<close> block of the parser, and the parser: any exception gives the empty
  list.\<close>

definition parse_ai_duplicate_try :: "env \<Rightarrow> string \<Rightarrow> registry \<Rightarrow> error + json list" where
  "parse_ai_duplicate_try E ai_text processed_claims =
     (case (if contains json_marker ai_text
            then (case json_loads E (fenced_json ai_text) of
                    None \<Rightarrow> Inl ValueError
                  | Some v \<Rightarrow> Inr v)
            else Inr (JObj [(''matches'', JList []), (''confidence'', JFloat 0.0)])) of
        Inl e \<Rightarrow> Inl e
      | Inr (JObj ai_result) \<Rightarrow>
          (case py_iter (dict_get ai_result ''matches'' (JList [])) of
             Inl e \<Rightarrow> Inl e
           | Inr ms \<Rightarrow> ai_matches_loop processed_claims ms)
      | Inr _ \<Rightarrow> Inl AttributeError)"

definition parse_ai_duplicate_result :: "env \<Rightarrow> string \<Rightarrow> registry \<Rightarrow> json list" where
  "parse_ai_duplicate_result E ai_text processed_claims =
     (case parse_ai_duplicate_try E ai_text processed_claims of
        Inr matches \<Rightarrow> matches
      | Inl e \<Rightarrow> [])"

text \<open>\<^verbatim>\<open>DuplicateDetector._build_duplicate_prompt\<close>\<close>

definition build_duplicate_prompt :: "env \<Rightarrow> pydict \<Rightarrow> registry \<Rightarrow> string" where
  "build_duplicate_prompt E current_claim processed_claims =
     join_lines
       ['''',
        ''        '' @ DUPLICATE_DETECTION_PROMPT E,
        ''        '',
        ''        CURRENT CLAIM:'',
        ''        '' @ json_dumps E (JObj current_claim),
        ''        '',
        ''        PREVIOUSLY PROCESSED CLAIMS:'',
        ''        '' @ json_dumps_claims E processed_claims,
        ''        '',
        ''        Analyze if the current claim is a duplicate or variation of any previously processed claims.'',
        ''        Consider similarities in: claim details, amounts, dates, parties involved, and loss descriptions.'']
     @ ''        ''"

text \<open>\<^verbatim>\<open>DuplicateDetector._ai_duplicate_check\<close>, in two steps: the prompt it passes to
  the service, built from at most ten entries of the registry, and the matches it parses
  from the answer, looked up in the whole registry. Nothing in its \<^verbatim>\<open>try\<close> block
  raises: the prompt formats JSON values, the client and the parser catch their own
  exceptions.\<close>

definition ai_duplicate_prompt :: "env \<Rightarrow> pydict \<Rightarrow> registry \<Rightarrow> string" where
  "ai_duplicate_prompt E current_claim processed_claims =
     (let sample_claims = (if length processed_claims > 10 then take 10 processed_claims
                           else processed_claims)
      in build_duplicate_prompt E current_claim sample_claims)"

definition ai_duplicate_check :: "env \<Rightarrow> service \<Rightarrow> pydict \<Rightarrow> registry \<Rightarrow> json list" where
  "ai_duplicate_check E svc current_claim processed_claims =
     parse_ai_duplicate_result E (svc (ai_duplicate_prompt E current_claim processed_claims))
       processed_claims"

subsection \<open>Combining the passes\<close>

text \<open>\<^verbatim>\<open>x['confidence']\<close> and the like on a candidate.\<close>

definition match_item :: "json \<Rightarrow> string \<Rightarrow> error + json" where
  "match_item m k = (case m of JObj d \<Rightarrow> dict_item d k | _ \<Rightarrow> Inl TypeError)"

text \<open>\<^verbatim>\<open>max(all_matches, key=lambda x: x['confidence'])\<close>: the first candidate is the
  best so far, and a later one replaces it when its key is greater.\<close>

fun max_loop :: "env \<Rightarrow> json \<Rightarrow> json \<Rightarrow> json list \<Rightarrow> error + json" where
  "max_loop E maxitem maxval [] = Inr maxitem"
| "max_loop E maxitem maxval (item # items) =
     (case match_item item ''confidence'' of
        Inl e \<Rightarrow> Inl e
      | Inr val \<Rightarrow>
          (case py_gt E val maxval of
             Inl e \<Rightarrow> Inl e
           | Inr is_greater \<Rightarrow>
               if is_greater then max_loop E item val items
               else max_loop E maxitem maxval items))"

definition max_by_confidence :: "env \<Rightarrow> json list \<Rightarrow> error + json" where
  "max_by_confidence E items =
     (case items of
        [] \<Rightarrow> Inl ValueError
      | item # rest \<Rightarrow>
          (case match_item item ''confidence'' of
             Inl e \<Rightarrow> Inl e
           | Inr val \<Rightarrow> max_loop E item val rest))"

text \<open>\<^verbatim>\<open>DuplicateDetector._combine_duplicate_results\<close>\<close>

definition combine_duplicate_results ::
    "env \<Rightarrow> json list \<Rightarrow> json list \<Rightarrow> json list \<Rightarrow> error + pydict" where
  "combine_duplicate_results E exact_matches similar_matches ai_matches =
     (let all_matches = exact_matches @ similar_matches @ ai_matches in
      if all_matches = [] then
        Inr [(''is_duplicate'', JBool False), (''confidence'', JFloat 0.0),
             (''matches'', JList [])]
      else
        (case max_by_confidence E all_matches of
           Inl e \<Rightarrow> Inl e
         | Inr best_match \<Rightarrow>
        (case match_item best_match ''confidence'' of
           Inl e \<Rightarrow> Inl e
         | Inr best_confidence \<Rightarrow>
        (case match_item best_match ''claim_id'' of
           Inl e \<Rightarrow> Inl e
         | Inr best_id \<Rightarrow>
        (case match_item best_match ''match_type'' of
           Inl e \<Rightarrow> Inl e
         | Inr best_type \<Rightarrow>
             Inr [(''is_duplicate'', JBool True),
                  (''confidence'', best_confidence),
                  (''duplicate_of'', best_id),
                  (''match_type'', best_type),
                  (''all_matches'', JList all_matches),
                  (''total_matches_found'', JInt (int (length all_matches)))])))))"

text \<open>The \<^verbatim>\<open>try\<close> block of \<^verbatim>\<open>DuplicateDetector.check_duplicate\<close>, and the function with
  its \<^verbatim>\<open>except\<close> clause.\<close>

definition check_duplicate_try :: "env \<Rightarrow> service \<Rightarrow> pydict \<Rightarrow> registry \<Rightarrow> error + pydict" where
  "check_duplicate_try E svc current_claim processed_claims =
     (if processed_claims = [] then
        Inr [(''is_duplicate'', JBool False), (''confidence'', JFloat 0.0)]
      else
        (case check_exact_matches E current_claim processed_claims of
           Inl e \<Rightarrow> Inl e
         | Inr exact_matches \<Rightarrow>
             (let similar_matches = check_similar_matches E current_claim processed_claims;
                  ai_matches = ai_duplicate_check E svc current_claim processed_claims
              in combine_duplicate_results E exact_matches similar_matches ai_matches)))"

definition check_duplicate :: "env \<Rightarrow> service \<Rightarrow> pydict \<Rightarrow> registry \<Rightarrow> pydict" where
  "check_duplicate E svc current_claim processed_claims =
     (case check_duplicate_try E svc current_claim processed_claims of
        Inr duplicate_result \<Rightarrow> duplicate_result
      | Inl e \<Rightarrow>
          [(''is_duplicate'', JBool False), (''confidence'', JFloat 0.0),
           (''error'', JStr (str_error e))])"

subsection \<open>The vocabulary of the verdict\<close>







section \<open>Processing pipeline\<close>

text \<open>
  What one run of \<^verbatim>\<open>process_single_claim\<close> receives from outside the core:
  \<^item> \<open>extract_pdf_content\<close>: \<^verbatim>\<open>_extract_pdf_content\<close>, which catches every exception and
    then returns the empty text;
  \<^item> \<open>analyze_claim\<close>: \<^verbatim>\<open>ClaimsAnalyzer.analyze_claim\<close>, which returns a dictionary on
    every path (its default analysis when anything raises);
  \<^item> \<open>gemini\<close>: the answers of the hosted service to the prompts of the two detectors;
  \<^item> \<open>generate_claim_report\<close>: \<^verbatim>\<open>ReportGenerator.generate_claim_report\<close>, which logs
    and raises again what goes wrong while the report is written;
  \<^item> the readings of the clock;
  \<^item> \<open>disk_write_ok\<close>: whether writing \<^verbatim>\<open>processed_claims.json\<close> succeeds.
\<close>

record world =
  extract_pdf_content :: "json \<Rightarrow> string"
  analyze_claim :: "string \<Rightarrow> pydict \<Rightarrow> pydict"
  gemini :: service
  generate_claim_report :: "pydict \<Rightarrow> pydict \<Rightarrow> pydict \<Rightarrow> fraud_result \<Rightarrow> error + string"
  timestamp_report :: string
  timestamp_result :: string
  timestamp_failed :: string
  disk_write_ok :: bool

text \<open>The dictionary \<^verbatim>\<open>report_data\<close> and the dataclass \<^verbatim>\<open>ProcessingResult\<close>. The
  fields of the result that the code reads out of dictionaries hold whatever value is
  there; \<open>analysis_results = None\<close> is the empty dictionary of the failed result.\<close>

record report_data =
  report_email_data :: pydict
  report_claim_analysis :: pydict
  report_duplicate_check :: pydict
  report_fraud_analysis :: fraud_result
  processing_timestamp :: string

record processing_result =
  email_id :: json
  claim_number :: json
  subject :: json
  sender_email :: json
  processing_status :: string
  result_fraud_score :: real
  is_duplicate :: json
  duplicate_of :: json
  analysis_results :: "report_data option"
  report_path :: string
  processed_at :: string

text \<open>The state of the pipeline object: the registry in memory, and every attempt to
  write it to the file, with the registry passed to \<^verbatim>\<open>json.dump\<close> and whether the
  write succeeded.\<close>

record pipeline =
  processed_claims :: registry
  save_calls :: "(registry \<times> bool) list"

text \<open>\<^verbatim>\<open>ClaimsProcessingPipeline._save_processed_claims\<close>: a failed write is logged and
  nothing is raised.\<close>

definition save_processed_claims :: "world \<Rightarrow> pipeline \<Rightarrow> pipeline" where
  "save_processed_claims W st =
     st\<lparr>save_calls := save_calls st @ [(processed_claims st, disk_write_ok W)]\<rparr>"

definition registry_entry :: "processing_result \<Rightarrow> pydict \<Rightarrow> pydict" where
  "registry_entry result claim =
     [(''email_id'', email_id result),
      (''subject'', subject result),
      (''sender_email'', sender_email result),
      (''processed_at'', JStr (processed_at result)),
      (''fraud_score'', JFloat (result_fraud_score result)),
      (''analysis_summary'', dict_get claim ''summary'' (JObj []))]"

text \<open>The \<^verbatim>\<open>try\<close> block of \<^verbatim>\<open>process_single_claim\<close>: \<open>Inl\<close> is an exception raised
  inside it, \<open>Inr\<close> the result with the state the pipeline is left in.\<close>

definition process_single_claim_try ::
    "env \<Rightarrow> world \<Rightarrow> pipeline \<Rightarrow> pydict \<Rightarrow> error + processing_result \<times> pipeline" where
  "process_single_claim_try E W st email =
     (case dict_item email ''subject'' of
        Inl e \<Rightarrow> Inl e
      | Inr logged_subject \<Rightarrow>
     (case dict_item email ''pdf_path'' of
        Inl e \<Rightarrow> Inl e
      | Inr pdf_path \<Rightarrow>
     (let pdf_text = extract_pdf_content W pdf_path;
          claim = analyze_claim W pdf_text email;
          duplicate_check = check_duplicate E (gemini W) claim (processed_claims st);
          fraud_analysis = detect_fraud E (gemini W) claim email
      in
      case generate_claim_report W email claim duplicate_check fraud_analysis of
        Inl e \<Rightarrow> Inl e
      | Inr path \<Rightarrow>
     (case dict_item email ''id'' of
        Inl e \<Rightarrow> Inl e
      | Inr the_id \<Rightarrow>
     (case dict_item email ''subject'' of
        Inl e \<Rightarrow> Inl e
      | Inr the_subject \<Rightarrow>
     (case dict_item email ''sender_email'' of
        Inl e \<Rightarrow> Inl e
      | Inr the_sender \<Rightarrow>
     (let result =
            \<lparr> email_id = the_id,
              claim_number = dict_get claim ''claim_number'' (JStr ''Unknown''),
              subject = the_subject,
              sender_email = the_sender,
              processing_status = ''completed'',
              result_fraud_score = fraud_score fraud_analysis,
              is_duplicate = dict_get duplicate_check ''is_duplicate'' (JBool False),
              duplicate_of = dict_get duplicate_check ''duplicate_of'' JNull,
              analysis_results =
                Some \<lparr> report_email_data = email,
                       report_claim_analysis = claim,
                       report_duplicate_check = duplicate_check,
                       report_fraud_analysis = fraud_analysis,
                       processing_timestamp = timestamp_report W \<rparr>,
              report_path = path,
              processed_at = timestamp_result W \<rparr>
      in
      if \<not> truthy (dict_get duplicate_check ''is_duplicate'' (JBool False)) then
        (case reg_set (processed_claims st) (claim_number result) (registry_entry result claim) of
           Inl e \<Rightarrow> Inl e
         | Inr registry' \<Rightarrow>
             Inr (result, save_processed_claims W (st\<lparr>processed_claims := registry'\<rparr>)))
      else Inr (result, st))))))))"

text \<open>The result built by the \<^verbatim>\<open>except\<close> clause. It reads three keys of the email, and
  a missing one raises out of \<^verbatim>\<open>process_single_claim\<close>.\<close>

definition failed_result :: "world \<Rightarrow> pydict \<Rightarrow> error + processing_result" where
  "failed_result W email =
     (case dict_item email ''id'' of
        Inl e \<Rightarrow> Inl e
      | Inr the_id \<Rightarrow>
     (case dict_item email ''subject'' of
        Inl e \<Rightarrow> Inl e
      | Inr the_subject \<Rightarrow>
     (case dict_item email ''sender_email'' of
        Inl e \<Rightarrow> Inl e
      | Inr the_sender \<Rightarrow>
          Inr \<lparr> email_id = the_id,
                claim_number = JStr ''Error'',
                subject = the_subject,
                sender_email = the_sender,
                processing_status = ''failed'',
                result_fraud_score = 0.0,
                is_duplicate = JBool False,
                duplicate_of = JNull,
                analysis_results = None,
                report_path = '''',
                processed_at = timestamp_failed W \<rparr>)))"

text \<open>\<^verbatim>\<open>ClaimsProcessingPipeline.process_single_claim\<close>: what it returns, or the exception
  it lets through, and the state of the pipeline afterwards. An exception inside the
  \<^verbatim>\<open>try\<close> block leaves the state as it was: the one statement that changes the
  registry either raises before it changes anything or is followed by statements that
  do not raise.\<close>

definition process_single_claim ::
    "env \<Rightarrow> world \<Rightarrow> pipeline \<Rightarrow> pydict \<Rightarrow> (error + processing_result) \<times> pipeline" where
  "process_single_claim E W st email =
     (case process_single_claim_try E W st email of
        Inr (result, st') \<Rightarrow> (Inr result, st')
      | Inl e \<Rightarrow> (failed_result W email, st))"

text \<open>Two claims processed one after the other, the second on the state the first left.\<close>

definition process_two_claims ::
    "env \<Rightarrow> world \<Rightarrow> world \<Rightarrow> pipeline \<Rightarrow> pydict \<Rightarrow> pydict \<Rightarrow>
     (error + processing_result) \<times> (error + processing_result) \<times> pipeline" where
  "process_two_claims E W1 W2 st email1 email2 =
     (case process_single_claim E W1 st email1 of
        (result1, st1) \<Rightarrow>
          (case process_single_claim E W2 st1 email2 of
             (result2, st2) \<Rightarrow> (result1, result2, st2)))"

text \<open>The registry upsert as the state shows it: the entry stands under its key in the
  registry in memory, and one more write of that registry to the file was attempted.\<close>

definition upserted :: "world \<Rightarrow> pipeline \<Rightarrow> json \<Rightarrow> pydict \<Rightarrow> pipeline \<Rightarrow> bool" where
  "upserted W st key entry st' =
     (processed_claims st' = reg_put (processed_claims st) key entry \<and>
      save_calls st' = save_calls st @ [(processed_claims st', disk_write_ok W)])"

section \<open>Test doubles and sample inputs\<close>

text \<open>An environment in which the digest of a text is the text itself, nothing parses as
  JSON and no text is a date; the settings have their default values.\<close>

definition test_env :: env where
  "test_env =
     \<lparr> py_repr = (\<lambda>v. ''<repr>''),
       md5_hexdigest = (\<lambda>text. text),
       json_loads = (\<lambda>text. None),
       json_dumps = (\<lambda>v. ''<json>''),
       json_dumps_claims = (\<lambda>claims. ''<claims>''),
       rich_gt = (\<lambda>x y. Inl TypeError),
       days_since = (\<lambda>s. None),
       set_order = remdups,
       FRAUD_THRESHOLD = 0.7,
       DUPLICATE_THRESHOLD = 0.8,
       FRAUD_DETECTION_PROMPT = ''<fraud prompt>'',
       DUPLICATE_DETECTION_PROMPT = ''<duplicate prompt>'' \<rparr>"

text \<open>A service that is down: the client answers every prompt with its failure text.\<close>

definition silent_service :: service where
  "silent_service prompt = ''Analysis failed - empty response''"

definition five_rules_claim :: pydict where
  "five_rules_claim =
     [(''claim_amount'', JInt 2000000), (''loss_date'', JStr ''unknown''),
      (''loss_location'', JStr ''TBD'')]"

definition five_rules_email :: pydict where
  "five_rules_email =
     [(''sender_email'', JStr ''999999@mail.com''), (''subject'', JStr ''URGENT claim'')]"

text \<open>An analysis in which the amount was returned as text.\<close>

definition text_amount_claim :: pydict where
  "text_amount_claim = [(''claim_amount'', JStr ''50,000 USD'')]"

text \<open>The analysis of a claim "CLM-100" of 5000, and the email it came with.\<close>

definition clm100_claim :: pydict where
  "clm100_claim = [(''claim_number'', JStr ''CLM-100''), (''claim_amount'', JInt 5000)]"

definition sample_email :: pydict where
  "sample_email =
     [(''id'', JStr ''email-1''), (''subject'', JStr ''Claim CLM-100''),
      (''sender_email'', JStr ''broker@example.com''), (''pdf_path'', JStr ''claim.pdf'')]"

text \<open>A world in which every collaborator works, one in which the report cannot be
  written, and one in which the registry file cannot be written.\<close>

definition ok_world :: world where
  "ok_world =
     \<lparr> extract_pdf_content = (\<lambda>path. ''''),
       analyze_claim = (\<lambda>text email. clm100_claim),
       gemini = silent_service,
       generate_claim_report = (\<lambda>email claim verdict fraud. Inr ''claim_report.pdf''),
       timestamp_report = ''t1'',
       timestamp_result = ''t2'',
       timestamp_failed = ''t3'',
       disk_write_ok = True \<rparr>"

definition report_fails_world :: world where
  "report_fails_world =
     ok_world\<lparr>generate_claim_report := (\<lambda>email claim verdict fraud. Inl ReportError)\<rparr>"

definition disk_fails_world :: world where
  "disk_fails_world = ok_world\<lparr>disk_write_ok := False\<rparr>"

definition empty_pipeline :: pipeline where
  "empty_pipeline = \<lparr> processed_claims = [], save_calls = [] \<rparr>"

text \<open>A registry of eleven entries as the pipeline writes them, an environment whose JSON
  parser reads one answer, naming a registered and an unknown claim, and lists the keys
  of the registry in the prompt, a service that gives that answer and one whose answer
  does not parse.\<close>

definition sample_entry :: pydict where
  "sample_entry =
     [(''email_id'', JStr ''email-0''), (''subject'', JStr ''Claim''),
      (''sender_email'', JStr ''broker@example.com''), (''processed_at'', JStr ''t0''),
      (''fraud_score'', JFloat 0.38), (''analysis_summary'', JObj [])]"

definition eleven_claims :: registry where
  "eleven_claims =
     map (\<lambda>number. (JStr number, sample_entry))
       [''CLM-1'', ''CLM-2'', ''CLM-3'', ''CLM-4'', ''CLM-5'', ''CLM-6'', ''CLM-7'', ''CLM-8'',
        ''CLM-9'', ''CLM-10'', ''CLM-11'']"

definition matches_answer :: json where
  "matches_answer =
     JObj [(''matches'',
            JList [JObj [(''claim_id'', JStr ''CLM-11''), (''confidence'', JFloat 0.9)],
                   JObj [(''claim_id'', JStr ''CLM-99'')]])]"

definition ai_env :: env where
  "ai_env =
     test_env\<lparr>json_loads := (\<lambda>text. if text = ''MATCHES'' then Some matches_answer else None),
              json_dumps_claims :=
                (\<lambda>claims. join_strings '', '' (map (\<lambda>kv. py_str test_env (fst kv)) claims))\<rparr>"

definition matching_service :: service where
  "matching_service prompt = ''```json MATCHES ```''"

definition garbled_service :: service where
  "garbled_service prompt = ''```json {not json ```''"




text \<open>An analysis without a claim number, one with nothing but an amount of 0, and two
  small registries.\<close>

definition null_number_claim :: pydict where
  "null_number_claim = [(''claim_number'', JNull), (''claim_amount'', JInt 0)]"

definition zero_claim :: pydict where
  "zero_claim = [(''claim_amount'', JInt 0)]"

definition one_claim :: registry where
  "one_claim = [(JStr ''CLM-100'', sample_entry)]"


section \<open>Properties of the fraud detector\<close>

lemmas rule_defs = rule_based_fraud_detection_def dict_get_def gt_number_def
  suspicious_date_pattern_def str_lower_def lower_def lower_char_def
  suspicious_email_pattern_def six_digits_at_def is_digit_def

text \<open>
  C5 (as it holds). For a claim of 2,000,000 with loss date "unknown" and loss
  location "TBD", sent by "999999@mail.com" with subject "URGENT claim", all five rules
  fire, and the rule-based score is the sum of their weights,
  0.3 + 0.2 + 0.1 + 0.2 + 0.1 = 0.9. The cap of 1.0 is not reached.
\<close>

theorem five_rules_score:
  assumes "map_of claim ''claim_amount'' = Some amount" and "num_val amount = Inr 2000000"
    and "map_of claim ''loss_date'' = Some (JStr ''unknown'')"
    and "map_of claim ''loss_location'' = Some (JStr ''TBD'')"
    and "map_of email ''sender_email'' = Some (JStr ''999999@mail.com'')"
    and "map_of email ''subject'' = Some (JStr ''URGENT claim'')"
  shows "rule_based_fraud_detection E claim email = Inr 0.9"
  using assms by (simp add: rule_defs)

theorem five_rules_score_witness:
  "rule_based_fraud_detection test_env five_rules_claim five_rules_email = Inr 0.9"
  using five_rules_score [of five_rules_claim "JInt 2000000" five_rules_email test_env]
  by (simp add: five_rules_claim_def five_rules_email_def)

text \<open>C5 as the specification states it, a score of exactly 1.0, fails on that input.\<close>

theorem five_rules_score_not_one:
  "rule_based_fraud_detection test_env five_rules_claim five_rules_email \<noteq> Inr 1.0"
  by (simp add: rule_defs five_rules_claim_def five_rules_email_def)

text \<open>The step function at the scores the specification lists and at its three
  thresholds: each threshold belongs to the level above it.\<close>

lemma get_risk_level_samples:
  "get_risk_level 0.85 = ''HIGH''" "get_risk_level 0.8 = ''HIGH''"
  "get_risk_level 0.79 = ''MEDIUM''" "get_risk_level 0.65 = ''MEDIUM''"
  "get_risk_level 0.6 = ''MEDIUM''" "get_risk_level 0.59 = ''LOW''"
  "get_risk_level 0.45 = ''LOW''" "get_risk_level 0.4 = ''LOW''"
  "get_risk_level 0.39 = ''VERY LOW''" "get_risk_level 0.1 = ''VERY LOW''"
  "get_risk_level 0 = ''VERY LOW''"
  by (simp_all add: get_risk_level_def)

text \<open>
  C6 (as it holds). When nothing raises inside \<^verbatim>\<open>detect_fraud\<close>, the risk level of the
  assessment is the step function of its fraud score: "HIGH" from 0.8, "MEDIUM" from 0.6,
  "LOW" from 0.4 and "VERY LOW" below. When something raises, the assessment is the
  default one: fraud score 0.5 with risk level "UNKNOWN".
\<close>

theorem detect_fraud_risk_level:
  "(detect_fraud_try E svc claim email = Inr r \<longrightarrow>
      detect_fraud E svc claim email = r \<and>
      risk_level r =
        (if fraud_score r \<ge> 0.8 then ''HIGH''
         else if fraud_score r \<ge> 0.6 then ''MEDIUM''
         else if fraud_score r \<ge> 0.4 then ''LOW''
         else ''VERY LOW'')) \<and>
   (detect_fraud_try E svc claim email = Inl err \<longrightarrow>
      detect_fraud E svc claim email = get_default_fraud_analysis \<and>
      fraud_score (detect_fraud E svc claim email) = 0.5 \<and>
      risk_level (detect_fraud E svc claim email) = ''UNKNOWN'')"
  by (auto simp: detect_fraud_def detect_fraud_try_def get_default_fraud_analysis_def
      get_risk_level_def Let_def split: sum.splits)

text \<open>The assessment of the claim that fires the five rules, with the service down: the
  rule score 0.9 and the default confidence 0.5 combine to 0.66.\<close>

lemma five_rules_assessment:
  "detect_fraud_try test_env silent_service five_rules_claim five_rules_email =
     Inr \<lparr> fraud_score = 0.66,
           risk_level = ''MEDIUM'',
           rule_based_score = 0.9,
           ai_analysis =
             JObj [(''fraud_indicators'', JList [JStr ''Analysis completed but parsing failed'']),
                   (''confidence'', JFloat 0.5),
                   (''recommendations'', JList [JStr ''Manual review recommended'']),
                   (''raw_analysis'', JStr ''Analysis failed - empty response'')],
           red_flags = [JStr ''Exceptionally high claim amount'',
                        JStr ''Analysis completed but parsing failed''],
           recommendations = [JStr ''Enhanced documentation review recommended'',
                              JStr ''Verify loss details with independent sources'',
                              JStr ''Check claim history of insured party'',
                              JStr ''Manual review recommended''],
           detection_methods = [''rule_based'', ''ai_analysis''] \<rparr>"
  by (simp add: detect_fraud_try_def rule_defs five_rules_claim_def five_rules_email_def
      combine_fraud_scores_def ai_based_fraud_detection_def parse_fraud_analysis_def
      silent_service_def json_marker_def extract_red_flags_def get_risk_level_def
      generate_fraud_recommendations_def test_env_def)

lemma text_amount_raises:
  "detect_fraud_try test_env silent_service text_amount_claim five_rules_email = Inl TypeError"
  by (simp add: detect_fraud_try_def rule_defs text_amount_claim_def)

theorem detect_fraud_risk_level_witness:
  "(\<exists>r. detect_fraud_try test_env silent_service five_rules_claim five_rules_email = Inr r) \<and>
   fraud_score (detect_fraud test_env silent_service five_rules_claim five_rules_email) = 0.66 \<and>
   risk_level (detect_fraud test_env silent_service five_rules_claim five_rules_email) =
     ''MEDIUM'' \<and>
   detect_fraud_try test_env silent_service text_amount_claim five_rules_email = Inl TypeError \<and>
   fraud_score (detect_fraud test_env silent_service text_amount_claim five_rules_email) = 0.5 \<and>
   risk_level (detect_fraud test_env silent_service text_amount_claim five_rules_email) =
     ''UNKNOWN''"
  using five_rules_assessment text_amount_raises
    detect_fraud_risk_level [of test_env silent_service five_rules_claim five_rules_email
      "detect_fraud test_env silent_service five_rules_claim five_rules_email"]
    detect_fraud_risk_level [of test_env silent_service text_amount_claim five_rules_email
      _ TypeError]
  by (simp add: detect_fraud_def)

text \<open>C6 as the specification states it, on every input, fails where the amount is a
  text: the comparison with 1,000,000 raises, and the default assessment pairs the score
  0.5 with "UNKNOWN", where the step function gives "LOW".\<close>

theorem risk_level_unknown:
  "fraud_score (detect_fraud test_env silent_service text_amount_claim five_rules_email) = 0.5 \<and>
   risk_level (detect_fraud test_env silent_service text_amount_claim five_rules_email) \<noteq>
     (if fraud_score (detect_fraud test_env silent_service text_amount_claim five_rules_email)
           \<ge> 0.8 then ''HIGH''
      else if fraud_score (detect_fraud test_env silent_service text_amount_claim five_rules_email)
           \<ge> 0.6 then ''MEDIUM''
      else if fraud_score (detect_fraud test_env silent_service text_amount_claim five_rules_email)
           \<ge> 0.4 then ''LOW''
      else ''VERY LOW'')"
  by (simp add: detect_fraud_def detect_fraud_try_def rule_defs text_amount_claim_def
      get_default_fraud_analysis_def)

section \<open>Properties of the text similarity\<close>

text \<open>A sequence compared with itself: every row of the search keeps the best block on the
  diagonal, so the extension of the best block covers the whole sequence, whatever the
  popularity heuristic has removed from the index.\<close>

lemma scan_row_keep:
  assumes "\<forall>j \<in> set js. j < bhi \<and> cell j2len j \<le> bs"
  shows "\<exists>new'. scan_row j2len 0 bhi i js (new, bi, bj, bs) = (new', bi, bj, bs) \<and>
           (\<forall>j. new' j = (if j \<in> set js then cell j2len j else new j))"
  using assms
proof (induction js arbitrary: new)
  case Nil
  then show ?case by simp
next
  case (Cons j js)
  from Cons.prems have j: "j < bhi" "cell j2len j \<le> bs" and rest: "\<forall>j \<in> set js. j < bhi \<and> cell j2len j \<le> bs"
    by simp_all
  from Cons.IH [OF rest, of "new(j := cell j2len j)"] obtain new' where
    run: "scan_row j2len 0 bhi i js (new(j := cell j2len j), bi, bj, bs) = (new', bi, bj, bs)"
    and val: "\<forall>x. new' x = (if x \<in> set js then cell j2len x else (new(j := cell j2len j)) x)"
    by blast
  from j run have "scan_row j2len 0 bhi i (j # js) (new, bi, bj, bs) = (new', bi, bj, bs)"
    by (simp add: cell_def Let_def)
  moreover from val have "\<forall>x. new' x = (if x \<in> set (j # js) then cell j2len x else new x)"
    by auto
  ultimately show ?case by blast
qed

lemma scan_row_append:
  assumes "\<forall>j \<in> set xs. j < bhi"
  shows "scan_row j2len blo bhi i (xs @ ys) st =
         scan_row j2len blo bhi i ys (scan_row j2len blo bhi i xs st)"
  using assms
proof (induction xs arbitrary: st)
  case Nil
  then show ?case by simp
next
  case (Cons x xs)
  obtain new bi bj bs where st: "st = (new, bi, bj, bs)" by (cases st) auto
  from Cons.prems have x: "x < bhi" and rest: "\<forall>j \<in> set xs. j < bhi" by simp_all
  show ?case
    unfolding st using x Cons.IH [OF rest] by (simp add: Let_def)
qed

lemma b2j_split:
  assumes "i < length a" and "\<not> popular a (a ! i)"
  shows "b2j a (a ! i) =
         filter (\<lambda>j. a ! j = a ! i) [0..<i] @ i # filter (\<lambda>j. a ! j = a ! i) [Suc i..<length a]"
proof -
  have "[0..<length a] = [0..<i] @ i # [Suc i..<length a]"
    using assms(1) by (metis le_add1 less_imp_add_positive upt_add_eq_append upt_conv_Cons
        plus_nat.add_0 less_or_eq_imp_le)
  then have "filter (\<lambda>j. a ! j = a ! i) [0..<length a] =
      filter (\<lambda>j. a ! j = a ! i) [0..<i] @ i # filter (\<lambda>j. a ! j = a ! i) [Suc i..<length a]"
    by simp
  with assms(2) show ?thesis by (simp add: b2j_def)
qed

lemma cell_le_run:
  assumes "\<forall>j. j2len j \<le> clean_run a j" and "\<not> popular a (a ! j)"
  shows "cell j2len j \<le> clean_run a j"
proof (cases j)
  case 0
  with assms(2) show ?thesis by (simp add: cell_def)
next
  case (Suc l)
  with assms show ?thesis by (simp add: cell_def)
qed

lemma scan_row_diag:
  assumes inv: "diag_inv a i (j2len, bst)" and i: "i < length a"
  shows "diag_inv a (Suc i) (scan_row j2len 0 (length a) i (b2j a (a ! i)) (\<lambda>j. 0, bst))"
proof -
  obtain bi bj bs where bst: "bst = (bi, bj, bs)" by (cases bst) auto
  from inv bst have diag: "bj = bi"
    and le_run: "\<forall>j. j2len j \<le> clean_run a j"
    and zero: "i = 0 \<longrightarrow> (\<forall>j. j2len j = 0)"
    and prev: "0 < i \<longrightarrow> j2len (i - 1) = clean_run a (i - 1) \<and> (\<forall>j. j2len j \<le> clean_run a (i - 1))"
    and best: "\<forall>j < i. clean_run a j \<le> bs"
    by (auto simp: diag_inv_def)
  show ?thesis
  proof (cases "popular a (a ! i)")
    case True
    then have "clean_run a i = 0" by (cases i) simp_all
    with True best show ?thesis
      unfolding bst by (auto simp: b2j_def diag_inv_def diag less_Suc_eq)
  next
    case False
    let ?js1 = "filter (\<lambda>j. a ! j = a ! i) [0..<i]"
    let ?js2 = "filter (\<lambda>j. a ! j = a ! i) [Suc i..<length a]"
    let ?k = "cell j2len i"
    have ki: "?k = clean_run a i"
    proof (cases i)
      case 0
      with False show ?thesis by (simp add: cell_def)
    next
      case (Suc l)
      with False prev show ?thesis by (simp add: cell_def)
    qed
    have dom: "cell j2len j \<le> ?k" for j
    proof (cases i)
      case 0
      with zero show ?thesis by (simp add: cell_def)
    next
      case (Suc l)
      with prev have "\<forall>x. j2len x \<le> j2len l" by simp
      with Suc show ?thesis by (simp add: cell_def)
    qed
    have clean: "cell j2len j \<le> clean_run a j" if "a ! j = a ! i" for j
      using cell_le_run [OF le_run, of j] False that by simp
    have js1: "\<forall>j \<in> set ?js1. j < length a \<and> cell j2len j \<le> bs"
      using i best clean by (auto intro: order_trans)
    from scan_row_keep [OF js1, of i "\<lambda>j. 0" bi bi] obtain new1 where
      r1: "scan_row j2len 0 (length a) i ?js1 (\<lambda>j. 0, bi, bi, bs) = (new1, bi, bi, bs)"
      and v1: "\<forall>j. new1 j = (if j \<in> set ?js1 then cell j2len j else 0)"
      by blast
    define bs2 where "bs2 = max bs ?k"
    define bi2 where "bi2 = (if ?k > bs then i + 1 - ?k else bi)"
    have r2: "scan_row j2len 0 (length a) i [i] (new1, bi, bi, bs) = (new1(i := ?k), bi2, bi2, bs2)"
      using i by (simp add: cell_def Let_def bs2_def bi2_def max_def)
    have js2: "\<forall>j \<in> set ?js2. j < length a \<and> cell j2len j \<le> bs2"
      using dom by (auto simp: bs2_def intro: le_max_iff_disj [THEN iffD2])
    from scan_row_keep [OF js2, of i "new1(i := ?k)" bi2 bi2] obtain new3 where
      r3: "scan_row j2len 0 (length a) i ?js2 (new1(i := ?k), bi2, bi2, bs2) = (new3, bi2, bi2, bs2)"
      and v3: "\<forall>j. new3 j = (if j \<in> set ?js2 then cell j2len j else (new1(i := ?k)) j)"
      by blast
    have split: "b2j a (a ! i) = ?js1 @ [i] @ ?js2"
      using b2j_split [OF i False] by simp
    have lt1: "\<forall>j \<in> set ?js1. j < length a" using i by auto
    have lt2: "\<forall>j \<in> set [i]. j < length a" using i by simp
    have result: "scan_row j2len 0 (length a) i (b2j a (a ! i)) (\<lambda>j. 0, bst) = (new3, bi2, bi2, bs2)"
      unfolding split bst diag
      by (simp only: scan_row_append [OF lt1] scan_row_append [OF lt2] r1 r2 r3)
    have val: "new3 j = (if a ! j = a ! i \<and> j < length a then cell j2len j else 0)" for j
      using v3 v1 i by (auto simp: not_less_eq less_Suc_eq_le)
    have "\<forall>j. new3 j \<le> clean_run a j"
      using val clean by simp
    moreover have "new3 i = clean_run a i"
      using val i ki by simp
    moreover have "\<forall>j. new3 j \<le> clean_run a i"
      using val dom ki by (simp add: le_trans)
    moreover have "\<forall>j < Suc i. clean_run a j \<le> bs2"
      using best ki by (auto simp: bs2_def less_Suc_eq le_max_iff_disj)
    ultimately show ?thesis
      unfolding result by (simp add: diag_inv_def)
  qed
qed

lemma scan_rows_diag:
  "i0 \<le> length a \<Longrightarrow> diag_inv a i0 (j2len, bst) \<Longrightarrow>
   diag_inv a (length a) (scan_rows a a 0 (length a) [i0..<length a] (j2len, bst))"
proof (induction "length a - i0" arbitrary: i0 j2len bst)
  case 0
  then show ?case by simp
next
  case (Suc n)
  then have lt: "i0 < length a" by simp
  obtain new' bst' where step:
    "scan_row j2len 0 (length a) i0 (b2j a (a ! i0)) (\<lambda>j. 0, bst) = (new', bst')"
    by (cases "scan_row j2len 0 (length a) i0 (b2j a (a ! i0)) (\<lambda>j. 0, bst)") auto
  from scan_row_diag [OF Suc.prems(2) lt] step have inv': "diag_inv a (Suc i0) (new', bst')"
    by simp
  have "n = length a - Suc i0" using Suc.hyps(2) by simp
  from Suc.hyps(1) [OF this _ inv'] lt
  have "diag_inv a (length a) (scan_rows a a 0 (length a) [Suc i0..<length a] (new', bst'))"
    by simp
  with lt step show ?case by (simp add: upt_conv_Cons)
qed

lemma extend_left_diag:
  "extend_left a a 0 0 (bi, bi, bs) = (0, 0, bs + bi)"
proof (induction bi arbitrary: bs)
  case 0
  show ?case by (subst extend_left.simps) simp
next
  case (Suc bi)
  show ?case by (subst extend_left.simps) (simp add: Suc)
qed

lemma extend_right_diag:
  "s \<le> n \<Longrightarrow> extend_right a a n n (0, 0, s) = (0, 0, n)"
proof (induction "n - s" arbitrary: s)
  case 0
  then show ?case by (subst extend_right.simps) simp
next
  case (Suc d)
  then have "s < n" and "d = n - (s + 1)" and "s + 1 \<le> n" by simp_all
  with Suc.hyps(1) [of "s + 1"] show ?case by (subst extend_right.simps) simp
qed

lemma find_longest_match_same:
  "find_longest_match a a 0 (length a) 0 (length a) = (0, 0, length a)"
proof -
  let ?n = "length a"
  let ?st = "scan_rows a a 0 ?n [0..<?n] (\<lambda>j. 0, 0, 0, 0)"
  have "diag_inv a 0 (\<lambda>j. 0, 0, 0, 0)" by (simp add: diag_inv_def)
  from scan_rows_diag [OF _ this] have inv: "diag_inv a ?n ?st" by simp
  obtain bi bj bs where snd: "snd ?st = (bi, bj, bs)" by (cases "snd ?st") auto
  with inv have diag: "bj = bi" by (cases ?st) (auto simp: diag_inv_def)
  have "best_ok 0 ?n 0 ?n (snd ?st)"
    by (rule scan_rows_ok) (simp_all add: row_ok_def best_ok_def)
  with snd have "bi + bs \<le> ?n" by (auto simp: best_ok_def)
  then have "extend_right a a ?n ?n (0, 0, bs + bi) = (0, 0, ?n)"
    by (intro extend_right_diag) simp
  then show ?thesis
    by (simp add: find_longest_match_def snd diag extend_left_diag)
qed

lemma matching_blocks_same:
  "sum_list (map (\<lambda>(i, j, k). k) (matching_blocks_loop a a [(0, length a, 0, length a)] [])) =
   length a"
proof -
  have eq: "matching_blocks_loop a a [(0, length a, 0, length a)] [] =
      (if length a \<noteq> 0 then [(0, 0, length a)] else [])"
    by (subst matching_blocks_loop.simps) (simp add: find_longest_match_same)
  show ?thesis unfolding eq by simp
qed

lemma ratio_same: "ratio a a = 1"
  by (simp add: ratio_def matching_blocks_same calculate_ratio_def
      del: matching_blocks_loop.simps)

lemma matching_blocks_bound:
  "sum_list (map (\<lambda>(i, j, k). k) (matching_blocks_loop a b queue blocks)) \<le>
     sum_list (map (\<lambda>(i, j, k). k) blocks) + fst (region_sizes queue) \<and>
   sum_list (map (\<lambda>(i, j, k). k) (matching_blocks_loop a b queue blocks)) \<le>
     sum_list (map (\<lambda>(i, j, k). k) blocks) + snd (region_sizes queue)"
proof (induction a b queue blocks rule: matching_blocks_loop.induct)
  case (1 a b blocks)
  then show ?case by simp
next
  case (2 a b alo ahi blo bhi queue blocks)
  obtain i j k where flm: "find_longest_match a b alo ahi blo bhi = (i, j, k)"
    by (cases "find_longest_match a b alo ahi blo bhi") auto
  have step: "matching_blocks_loop a b ((alo, ahi, blo, bhi) # queue) blocks =
      (if k \<noteq> 0 then
         matching_blocks_loop a b
           ((if i + k < ahi \<and> j + k < bhi then [(i + k, ahi, j + k, bhi)] else []) @
            (if alo < i \<and> blo < j then [(alo, i, blo, j)] else []) @ queue)
           (blocks @ [(i, j, k)])
       else matching_blocks_loop a b queue blocks)"
    by (subst matching_blocks_loop.simps) (simp add: flm del: matching_blocks_loop.simps)
  show ?case
  proof (cases "k = 0")
    case True
    with flm "2.IH"(2) [of i "(j, k)" j k] show ?thesis
      unfolding step by (auto simp: region_sizes_def simp del: matching_blocks_loop.simps)
  next
    case False
    note bounds = find_longest_match_bounds [OF flm False]
    from flm False "2.IH"(1) [of i "(j, k)" j k]
    show ?thesis
      unfolding step using bounds
      by (auto simp: region_sizes_def simp del: matching_blocks_loop.simps)
  qed
qed

lemma ratio_range: "0 \<le> ratio a b \<and> ratio a b \<le> 1"
proof -
  let ?m = "sum_list (map (\<lambda>(i, j, k). k) (matching_blocks_loop a b [(0, length a, 0, length b)] []))"
  from matching_blocks_bound [of a b "[(0, length a, 0, length b)]" "[]"]
  have "?m \<le> length a" and "?m \<le> length b"
    by (simp_all add: region_sizes_def del: matching_blocks_loop.simps)
  then have "2 * real ?m \<le> real (length a + length b)" by simp
  then show ?thesis
    by (auto simp: ratio_def calculate_ratio_def divide_le_eq_1
        simp del: matching_blocks_loop.simps)
qed

text \<open>C7 (as it holds). For all texts \<^term>\<open>x\<close> and \<^term>\<open>y\<close>,
  \<^verbatim>\<open>_calculate_similarity(x, x)\<close> is 1.0, and \<^verbatim>\<open>_calculate_similarity(x, y)\<close> lies in the
  interval from 0 to 1. The matched elements are counted once on each side, so twice their
  number never exceeds the total length; for equal texts the quotient is \<^verbatim>\<open>2n / 2n\<close>, which
  is 1.0 in floating point as well.\<close>

theorem similarity_identity_and_range:
  "calculate_similarity x x = 1 \<and>
   0 \<le> calculate_similarity x y \<and> calculate_similarity x y \<le> 1"
  using ratio_range [of "lower x" "lower y"]
  by (simp add: calculate_similarity_def ratio_same del: matching_blocks_loop.simps)

text \<open>The values of the similarity for the texts \<^verbatim>\<open>'tide'\<close> and \<^verbatim>\<open>'diet'\<close>, in both
  orders. The first block found is the first longest one in the first argument. For
  \<^verbatim>\<open>'tide'\<close> against \<^verbatim>\<open>'diet'\<close> it is \<^verbatim>\<open>'t'\<close>, the first letter of one text and the
  last of the other, which leaves nothing to match on either side: one letter of eight,
  counted twice. For \<^verbatim>\<open>'diet'\<close> against \<^verbatim>\<open>'tide'\<close> it is \<^verbatim>\<open>'d'\<close>, and to its right
  \<^verbatim>\<open>'e'\<close> matches as well: two letters.\<close>

lemma similarity_tide_diet:
  "calculate_similarity ''tide'' ''diet'' = 1 / 4"
  "calculate_similarity ''diet'' ''tide'' = 1 / 2"
  by code_simp+

text \<open>C7 (the symmetry, refuted). \<^verbatim>\<open>_calculate_similarity\<close> is not symmetric: for the texts
  \<^verbatim>\<open>'tide'\<close> and \<^verbatim>\<open>'diet'\<close> the two orders of the arguments give different values
  (0.25 and 0.5).\<close>

theorem similarity_not_symmetric:
  "calculate_similarity ''tide'' ''diet'' \<noteq> calculate_similarity ''diet'' ''tide''"
  by code_simp

section \<open>Properties of the duplicate detector\<close>

lemma ai_matches_loop_member:
  "ai_matches_loop reg ms = Inr out \<Longrightarrow>
   \<forall>m \<in> set out. \<exists>cid. match_item m ''claim_id'' = Inr cid \<and> reg_member reg cid = Inr True"
proof (induction reg ms arbitrary: out rule: ai_matches_loop.induct)
  case (1 reg)
  then show ?case by simp
next
  case (2 reg m rest)
  then show ?case
    by (auto simp: Let_def ai_match_def match_item_def dict_item_def
        split: sum.splits if_splits)
qed simp_all

text \<open>
  C9. For a registry of more than ten entries the prompt that the semantic pass sends
  to the analysis service is built from the first ten entries, in the order of the
  registry, and the candidates are parsed from the answer to that prompt. Every
  candidate the pass returns has a \<^verbatim>\<open>claim_id\<close> that is a key of the registry. When
  the answer does not parse (no JSON block, a block that is not JSON, or an answer of
  the wrong shape) the pass returns the empty list.
\<close>

theorem ai_duplicate_check_contract:
  "(length reg > 10 \<longrightarrow>
      ai_duplicate_prompt E cur reg = build_duplicate_prompt E cur (take 10 reg)) \<and>
   ai_duplicate_check E svc cur reg =
      parse_ai_duplicate_result E (svc (ai_duplicate_prompt E cur reg)) reg \<and>
   (\<forall>m \<in> set (ai_duplicate_check E svc cur reg).
      \<exists>cid. match_item m ''claim_id'' = Inr cid \<and> reg_member reg cid = Inr True) \<and>
   (\<not> contains json_marker answer \<or> json_loads E (fenced_json answer) = None \<or>
    parse_ai_duplicate_try E answer reg = Inl err \<longrightarrow>
      parse_ai_duplicate_result E answer reg = [])"
proof -
  have member: "\<forall>m \<in> set (parse_ai_duplicate_result E reply reg).
      \<exists>cid. match_item m ''claim_id'' = Inr cid \<and> reg_member reg cid = Inr True" for reply
  proof (cases "parse_ai_duplicate_try E reply reg")
    case (Inl e)
    then show ?thesis by (simp add: parse_ai_duplicate_result_def)
  next
    case (Inr out)
    then obtain ms where "ai_matches_loop reg ms = Inr out"
      by (auto simp: parse_ai_duplicate_try_def split: sum.splits json.splits if_splits
          option.splits)
    from ai_matches_loop_member [OF this] Inr show ?thesis
      by (simp add: parse_ai_duplicate_result_def)
  qed
  have empty: "\<not> contains json_marker answer \<or> json_loads E (fenced_json answer) = None \<or>
      parse_ai_duplicate_try E answer reg = Inl err \<longrightarrow>
      parse_ai_duplicate_result E answer reg = []"
    by (auto simp: parse_ai_duplicate_result_def parse_ai_duplicate_try_def dict_get_def)
  show ?thesis
    using member empty by (simp add: ai_duplicate_prompt_def ai_duplicate_check_def)
qed

lemma matching_service_result:
  "ai_duplicate_check ai_env matching_service clm100_claim eleven_claims =
     [JObj [(''claim_id'', JStr ''CLM-11''), (''match_type'', JStr ''ai_detected''),
            (''confidence'', JFloat 0.9),
            (''matching_fields'', JList [JStr ''ai_analysis''])]]"
  by code_simp

theorem ai_duplicate_check_contract_witness:
  "length eleven_claims > 10 \<and>
   ai_duplicate_prompt ai_env clm100_claim eleven_claims =
     build_duplicate_prompt ai_env clm100_claim (take 10 eleven_claims) \<and>
   JObj [(''claim_id'', JStr ''CLM-11''), (''match_type'', JStr ''ai_detected''),
         (''confidence'', JFloat 0.9), (''matching_fields'', JList [JStr ''ai_analysis''])]
     \<in> set (ai_duplicate_check ai_env matching_service clm100_claim eleven_claims) \<and>
   reg_member eleven_claims (JStr ''CLM-11'') = Inr True \<and>
   json_loads ai_env (fenced_json (garbled_service [])) = None \<and>
   parse_ai_duplicate_result ai_env (garbled_service []) eleven_claims = []"
proof -
  have len: "length eleven_claims > 10"
    by (simp add: eleven_claims_def)
  have garbled: "json_loads ai_env (fenced_json (garbled_service [])) = None"
    by code_simp
  have member: "reg_member eleven_claims (JStr ''CLM-11'') = Inr True"
    by code_simp
  show ?thesis
    using len garbled member matching_service_result
      ai_duplicate_check_contract [of eleven_claims ai_env clm100_claim matching_service
        "garbled_service []" TypeError]
    by simp
qed
















text \<open>The fingerprint text and the claim text of the claim "CLM-100" and of a registry
  entry, their similarity, and the semantic pass when the service is down.\<close>

lemma clm100_fingerprint:
  "fingerprint_text E clm100_claim = Inr ''CLM-100||5000||''"
  by (simp add: fingerprint_text_def clm100_claim_def dict_get_def py_str_def str_int_def
      str_nat.simps)

lemma clm100_text:
  "get_claim_text E clm100_claim = ''CLM-100 5000''"
  by (simp add: get_claim_text_def clm100_claim_def dict_get_def py_str_def str_int_def
      str_nat.simps)

lemma clm100_similarity:
  "calculate_similarity ''CLM-100 5000'' ''0'' = 2 / 13"
  by code_simp

lemma silent_service_no_matches:
  "ai_duplicate_check E silent_service cur reg = []"
  by (simp add: ai_duplicate_check_def parse_ai_duplicate_result_def parse_ai_duplicate_try_def
      silent_service_def json_marker_def dict_get_def)















text \<open>
  C8 (as it holds). \<^verbatim>\<open>check_duplicate\<close> returns a verdict on every input. An exception
  inside the semantic pass is caught there: the pass contributes no candidate and the
  exact and fuzzy candidates are combined as usual. An exception anywhere else in the
  \<^verbatim>\<open>try\<close> block, in particular in the exact pass, is caught by the one handler of
  \<^verbatim>\<open>check_duplicate\<close>, and the verdict is \<^verbatim>\<open>is_duplicate\<close> false, confidence 0.0
  and the error message, whatever the other passes found.
\<close>

theorem check_duplicate_failure_policy:
  "(check_duplicate_try E svc cur reg = Inr v \<longrightarrow> check_duplicate E svc cur reg = v) \<and>
   (check_duplicate_try E svc cur reg = Inl err \<longrightarrow>
      check_duplicate E svc cur reg =
        [(''is_duplicate'', JBool False), (''confidence'', JFloat 0.0),
         (''error'', JStr (str_error err))]) \<and>
   (reg \<noteq> [] \<and> check_exact_matches E cur reg = Inr ex \<and>
    parse_ai_duplicate_try E (svc (ai_duplicate_prompt E cur reg)) reg = Inl err \<longrightarrow>
      ai_duplicate_check E svc cur reg = [] \<and>
      check_duplicate_try E svc cur reg =
        combine_duplicate_results E ex (check_similar_matches E cur reg) []) \<and>
   (reg \<noteq> [] \<and> check_exact_matches E cur reg = Inl err \<longrightarrow>
      check_duplicate E svc cur reg =
        [(''is_duplicate'', JBool False), (''confidence'', JFloat 0.0),
         (''error'', JStr (str_error err))])"
  by (simp add: check_duplicate_def check_duplicate_try_def ai_duplicate_check_def
      parse_ai_duplicate_result_def Let_def)


theorem check_duplicate_failure_policy_witness:
  "check_exact_matches test_env null_number_claim one_claim = Inl TypeError \<and>
   check_duplicate test_env silent_service null_number_claim one_claim =
     [(''is_duplicate'', JBool False), (''confidence'', JFloat 0.0),
      (''error'', JStr ''TypeError'')] \<and>
   check_exact_matches ai_env zero_claim one_claim = Inr [exact_match (JStr ''CLM-100'')] \<and>
   parse_ai_duplicate_try ai_env (garbled_service (ai_duplicate_prompt ai_env zero_claim one_claim))
     one_claim = Inl ValueError \<and>
   check_duplicate ai_env garbled_service zero_claim one_claim =
     [(''is_duplicate'', JBool True), (''confidence'', JFloat 1),
      (''duplicate_of'', JStr ''CLM-100''), (''match_type'', JStr ''exact''),
      (''all_matches'',
       JList [exact_match (JStr ''CLM-100''), similar_match (JStr ''CLM-100'') 1]),
      (''total_matches_found'', JInt 2)]"
proof -
  have raised: "check_exact_matches test_env null_number_claim one_claim = Inl TypeError"
    by code_simp
  have ne: "one_claim \<noteq> []"
    by (simp add: one_claim_def)
  have exact: "check_exact_matches ai_env zero_claim one_claim = Inr [exact_match (JStr ''CLM-100'')]"
    by code_simp
  have garbled: "parse_ai_duplicate_try ai_env
      (garbled_service (ai_duplicate_prompt ai_env zero_claim one_claim)) one_claim = Inl ValueError"
    by (simp add: garbled_service_def) code_simp
  have similar: "check_similar_matches ai_env zero_claim one_claim =
      [similar_match (JStr ''CLM-100'') 1]"
    by code_simp
  have combined: "combine_duplicate_results ai_env [exact_match (JStr ''CLM-100'')]
      [similar_match (JStr ''CLM-100'') 1] [] =
     Inr [(''is_duplicate'', JBool True), (''confidence'', JFloat 1),
      (''duplicate_of'', JStr ''CLM-100''), (''match_type'', JStr ''exact''),
      (''all_matches'',
       JList [exact_match (JStr ''CLM-100''), similar_match (JStr ''CLM-100'') 1]),
      (''total_matches_found'', JInt 2)]"
    by code_simp
  from check_duplicate_failure_policy [of test_env silent_service null_number_claim one_claim
      _ TypeError] raised ne
  have first: "check_duplicate test_env silent_service null_number_claim one_claim =
     [(''is_duplicate'', JBool False), (''confidence'', JFloat 0.0),
      (''error'', JStr ''TypeError'')]"
    by simp
  from check_duplicate_failure_policy [of ai_env garbled_service zero_claim one_claim
      _ ValueError "[exact_match (JStr ''CLM-100'')]"] exact garbled ne similar combined
  have "check_duplicate_try ai_env garbled_service zero_claim one_claim =
     Inr [(''is_duplicate'', JBool True), (''confidence'', JFloat 1),
      (''duplicate_of'', JStr ''CLM-100''), (''match_type'', JStr ''exact''),
      (''all_matches'',
       JList [exact_match (JStr ''CLM-100''), similar_match (JStr ''CLM-100'') 1]),
      (''total_matches_found'', JInt 2)]"
    by simp
  with check_duplicate_failure_policy [of ai_env garbled_service zero_claim one_claim]
  have second: "check_duplicate ai_env garbled_service zero_claim one_claim =
     [(''is_duplicate'', JBool True), (''confidence'', JFloat 1),
      (''duplicate_of'', JStr ''CLM-100''), (''match_type'', JStr ''exact''),
      (''all_matches'',
       JList [exact_match (JStr ''CLM-100''), similar_match (JStr ''CLM-100'') 1]),
      (''total_matches_found'', JInt 2)]"
    by simp
  from raised first exact garbled second show ?thesis by simp
qed

text \<open>C8 as the specification states it, the other passes still contributing, fails on
  an analysis whose claim number is null against a registry written by the pipeline:
  joining the fingerprint fields raises in the exact pass, the fuzzy pass has a
  candidate of confidence 1, and the verdict is the error verdict, not the combination
  of the candidates of the passes that did not raise.\<close>

theorem exact_pass_failure_discards_fuzzy_match:
  "check_exact_matches test_env null_number_claim one_claim = Inl TypeError \<and>
   check_similar_matches test_env null_number_claim one_claim =
     [similar_match (JStr ''CLM-100'') 1] \<and>
   check_duplicate test_env silent_service null_number_claim one_claim =
     [(''is_duplicate'', JBool False), (''confidence'', JFloat 0.0),
      (''error'', JStr ''TypeError'')] \<and>
   combine_duplicate_results test_env []
     (check_similar_matches test_env null_number_claim one_claim)
     (ai_duplicate_check test_env silent_service null_number_claim one_claim) \<noteq>
     Inr (check_duplicate test_env silent_service null_number_claim one_claim)"
  by code_simp

section \<open>Properties of the processing pipeline\<close>

lemma dict_item_Some: "map_of d k = Some v \<Longrightarrow> dict_item d k = Inr v"
  by (simp add: dict_item_def)

lemma key_eq_refl: "hashable k \<Longrightarrow> key_eq k k"
  by (cases k) (simp_all add: key_eq_def)

lemma reg_put_member: "hashable k \<Longrightarrow> list_ex (\<lambda>kv. key_eq k (fst kv)) (reg_put reg k v)"
  by (induction reg) (auto simp: key_eq_refl)

lemma try_completed:
  assumes "process_single_claim_try E W st email = Inr (r, st')"
  shows "processing_status r = ''completed''"
    and "st' = st \<or>
         (hashable (claim_number r) \<and>
          (\<exists>entry. st' = save_processed_claims W
             (st\<lparr>processed_claims := reg_put (processed_claims st) (claim_number r) entry\<rparr>)))"
  using assms
  by (auto simp: process_single_claim_try_def Let_def reg_set_def split: sum.splits if_splits)

text \<open>
  C10. On an email that has the keys "id", "subject", "sender_email" and "pdf_path",
  \<^verbatim>\<open>process_single_claim\<close> returns a result and lets no exception through; when
  anything raises inside its \<^verbatim>\<open>try\<close> block, the result is the failed one: status
  "failed", claim number "Error", fraud score 0.0, not a duplicate, duplicate of nothing,
  no analysis results and an empty report path, and the state of the pipeline is as it
  was.
\<close>

theorem process_single_claim_total:
  assumes "map_of email ''id'' = Some i" and "map_of email ''subject'' = Some s"
    and "map_of email ''sender_email'' = Some a" and "map_of email ''pdf_path'' = Some p"
  shows "(\<exists>r. fst (process_single_claim E W st email) = Inr r) \<and>
    (process_single_claim_try E W st email = Inl err \<longrightarrow>
       process_single_claim E W st email =
         (Inr \<lparr> email_id = i, claim_number = JStr ''Error'', subject = s, sender_email = a,
                processing_status = ''failed'', result_fraud_score = 0.0,
                is_duplicate = JBool False, duplicate_of = JNull, analysis_results = None,
                report_path = '''', processed_at = timestamp_failed W \<rparr>, st))"
  using assms
  by (auto simp: process_single_claim_def failed_result_def dict_item_Some split: sum.splits)

theorem process_single_claim_total_witness:
  "(\<exists>r. fst (process_single_claim test_env report_fails_world empty_pipeline sample_email) = Inr r) \<and>
   process_single_claim_try test_env report_fails_world empty_pipeline sample_email = Inl ReportError \<and>
   process_single_claim test_env report_fails_world empty_pipeline sample_email =
     (Inr \<lparr> email_id = JStr ''email-1'', claim_number = JStr ''Error'',
            subject = JStr ''Claim CLM-100'', sender_email = JStr ''broker@example.com'',
            processing_status = ''failed'', result_fraud_score = 0.0,
            is_duplicate = JBool False, duplicate_of = JNull, analysis_results = None,
            report_path = '''', processed_at = ''t3'' \<rparr>, empty_pipeline)"
proof -
  have raised: "process_single_claim_try test_env report_fails_world empty_pipeline sample_email =
      Inl ReportError"
    by (simp add: process_single_claim_try_def sample_email_def dict_item_def
        report_fails_world_def ok_world_def)
  show ?thesis
    using raised
      process_single_claim_total [of sample_email "JStr ''email-1''" "JStr ''Claim CLM-100''"
        "JStr ''broker@example.com''" "JStr ''claim.pdf''" test_env report_fails_world
        empty_pipeline ReportError]
    by (simp add: sample_email_def report_fails_world_def ok_world_def)
qed

text \<open>
  C2 (as it holds). When the \<^verbatim>\<open>try\<close> block of \<^verbatim>\<open>process_single_claim\<close> completes, the
  result carries the \<^verbatim>\<open>is_duplicate\<close> of the verdict, and the registry upsert (the
  entry written under the claim number, one write of the registry file attempted) is
  performed if and only if that value is false: with a true value the state is left as
  it was. When anything raises inside the \<^verbatim>\<open>try\<close> block, whatever the verdict, the
  state is left as it was. So no entry is ever created for a claim whose verdict has
  \<^verbatim>\<open>is_duplicate\<close> true.
\<close>

theorem upsert_rule:
  "(process_single_claim_try E W st email = Inr (r, st') \<longrightarrow>
      process_single_claim E W st email = (Inr r, st') \<and>
      (\<exists>p. map_of email ''pdf_path'' = Some p \<and>
         is_duplicate r =
           dict_get (check_duplicate E (gemini W)
                       (analyze_claim W (extract_pdf_content W p) email) (processed_claims st))
             ''is_duplicate'' (JBool False) \<and>
         (if truthy (is_duplicate r) then st' = st
          else upserted W st (claim_number r)
                 (registry_entry r (analyze_claim W (extract_pdf_content W p) email)) st'))) \<and>
   (process_single_claim_try E W st email = Inl err \<longrightarrow>
      snd (process_single_claim E W st email) = st)"
  by (auto simp: process_single_claim_def process_single_claim_try_def Let_def dict_item_def
      reg_set_def upserted_def save_processed_claims_def
      split: sum.splits option.splits if_splits)

theorem upsert_rule_witness:
  "process_single_claim_try test_env ok_world empty_pipeline sample_email =
     Inr (projr (process_single_claim_try test_env ok_world empty_pipeline sample_email)) \<and>
   is_duplicate (fst (projr (process_single_claim_try test_env ok_world empty_pipeline sample_email)))
     = JBool False \<and>
   upserted ok_world empty_pipeline (JStr ''CLM-100'')
     (registry_entry (fst (projr (process_single_claim_try test_env ok_world empty_pipeline sample_email)))
        clm100_claim)
     (snd (process_single_claim test_env ok_world empty_pipeline sample_email)) \<and>
   process_single_claim_try test_env report_fails_world empty_pipeline sample_email = Inl ReportError \<and>
   snd (process_single_claim test_env report_fails_world empty_pipeline sample_email) = empty_pipeline"
proof -
  let ?T = "process_single_claim_try test_env ok_world empty_pipeline sample_email"
  have "\<exists>x. ?T = Inr x"
    by (simp add: process_single_claim_try_def sample_email_def dict_item_def ok_world_def
        check_duplicate_def check_duplicate_try_def empty_pipeline_def reg_set_def dict_get_def
        clm100_claim_def Let_def)
  then have completed: "?T = Inr (fst (projr ?T), snd (projr ?T))"
    by auto
  have dup: "is_duplicate (fst (projr ?T)) = JBool False"
    by (simp add: process_single_claim_try_def sample_email_def dict_item_def ok_world_def
        check_duplicate_def check_duplicate_try_def empty_pipeline_def reg_set_def dict_get_def
        clm100_claim_def Let_def)
  have num: "claim_number (fst (projr ?T)) = JStr ''CLM-100''"
    by (simp add: process_single_claim_try_def sample_email_def dict_item_def ok_world_def
        check_duplicate_def check_duplicate_try_def empty_pipeline_def reg_set_def dict_get_def
        clm100_claim_def Let_def)
  have raised: "process_single_claim_try test_env report_fails_world empty_pipeline sample_email =
      Inl ReportError"
    by (simp add: process_single_claim_try_def sample_email_def dict_item_def
        report_fails_world_def ok_world_def)
  have analysis: "analyze_claim ok_world (extract_pdf_content ok_world (JStr ''claim.pdf'')) sample_email =
      clm100_claim"
    by (simp add: ok_world_def)
  have path: "map_of sample_email ''pdf_path'' = Some (JStr ''claim.pdf'')"
    by (simp add: sample_email_def)
  from upsert_rule [of test_env ok_world empty_pipeline sample_email "fst (projr ?T)"
      "snd (projr ?T)"] completed dup num path analysis
  have "process_single_claim test_env ok_world empty_pipeline sample_email =
          (Inr (fst (projr ?T)), snd (projr ?T))"
    and "upserted ok_world empty_pipeline (JStr ''CLM-100'')
          (registry_entry (fst (projr ?T)) clm100_claim) (snd (projr ?T))"
    by auto
  moreover from upsert_rule [of test_env report_fails_world empty_pipeline sample_email _ _
      ReportError] raised
  have "snd (process_single_claim test_env report_fails_world empty_pipeline sample_email) =
      empty_pipeline"
    by simp
  ultimately show ?thesis
    using completed dup raised by simp
qed

text \<open>C2 as the specification states it, an upsert if and only if the verdict is not a
  duplicate, fails where the report cannot be written: the verdict on the first claim
  of an empty registry is not a duplicate, and nothing is written to the registry.\<close>

theorem no_upsert_when_report_fails:
  "dict_get (check_duplicate test_env (gemini report_fails_world)
       (analyze_claim report_fails_world
          (extract_pdf_content report_fails_world (JStr ''claim.pdf'')) sample_email)
       (processed_claims empty_pipeline))
     ''is_duplicate'' (JBool False) = JBool False \<and>
   snd (process_single_claim test_env report_fails_world empty_pipeline sample_email) =
     empty_pipeline"
  by (simp add: process_single_claim_def process_single_claim_try_def sample_email_def
      dict_item_def report_fails_world_def ok_world_def check_duplicate_def
      check_duplicate_try_def empty_pipeline_def dict_get_def)

text \<open>
  C3 (as it holds). When the write of the registry file fails, \<^verbatim>\<open>_save_processed_claims\<close>
  logs the error and raises nothing: \<^verbatim>\<open>process_single_claim\<close> returns the result with
  status "completed", and the claim stays registered in the registry in memory, which
  is the registry whose write failed.
\<close>

theorem failed_write_is_swallowed:
  assumes "process_single_claim E W st email = (res, st')"
    and "save_calls st' = save_calls st @ [(reg, False)]"
  shows "\<exists>r. res = Inr r \<and> processing_status r = ''completed'' \<and>
           processed_claims st' = reg \<and> reg_member reg (claim_number r) = Inr True"
proof (cases "process_single_claim_try E W st email")
  case (Inl e)
  with assms(1) have "st' = st" by (simp add: process_single_claim_def)
  with assms(2) show ?thesis by simp
next
  case (Inr x)
  obtain r st'' where x: "x = (r, st'')" by (cases x) auto
  with Inr assms(1) have res: "res = Inr r" and st: "st'' = st'"
    by (simp_all add: process_single_claim_def)
  from Inr x st have tr: "process_single_claim_try E W st email = Inr (r, st')" by simp
  from try_completed(2) [OF tr] assms(2)
  obtain entry where h: "hashable (claim_number r)"
    and st': "st' = save_processed_claims W
        (st\<lparr>processed_claims := reg_put (processed_claims st) (claim_number r) entry\<rparr>)"
    by auto
  from st' assms(2) have "processed_claims st' = reg"
    by (simp add: save_processed_claims_def)
  moreover from st' h have "reg_member (processed_claims st') (claim_number r) = Inr True"
    by (simp add: save_processed_claims_def reg_member_def reg_put_member)
  ultimately show ?thesis
    using res try_completed(1) [OF tr] by auto
qed

theorem failed_write_is_swallowed_witness:
  "\<exists>r. fst (process_single_claim test_env disk_fails_world empty_pipeline sample_email) = Inr r \<and>
       processing_status r = ''completed'' \<and>
       reg_member
         (processed_claims (snd (process_single_claim test_env disk_fails_world empty_pipeline sample_email)))
         (claim_number r) = Inr True"
proof -
  let ?P = "process_single_claim test_env disk_fails_world empty_pipeline sample_email"
  have calls: "save_calls (snd ?P) = save_calls empty_pipeline @ [(processed_claims (snd ?P), False)]"
    by (simp add: process_single_claim_def process_single_claim_try_def sample_email_def
        dict_item_def disk_fails_world_def ok_world_def check_duplicate_def
        check_duplicate_try_def empty_pipeline_def dict_get_def reg_set_def clm100_claim_def
        save_processed_claims_def Let_def)
  from failed_write_is_swallowed [of test_env disk_fails_world empty_pipeline sample_email
      "fst ?P" "snd ?P" "processed_claims (snd ?P)"] calls
  show ?thesis by simp
qed

text \<open>C3 as the specification states it, a failed result and no registration when the
  write fails, fails on the first claim of an empty registry whose file cannot be
  written: the one write attempted failed, the result is there with status "completed",
  and "CLM-100" is in the registry in memory.\<close>

theorem completed_although_write_failed:
  "save_calls (snd (process_single_claim test_env disk_fails_world empty_pipeline sample_email)) =
     [(processed_claims (snd (process_single_claim test_env disk_fails_world empty_pipeline sample_email)),
       False)] \<and>
   \<not> isl (fst (process_single_claim test_env disk_fails_world empty_pipeline sample_email)) \<and>
   processing_status
     (projr (fst (process_single_claim test_env disk_fails_world empty_pipeline sample_email))) =
     ''completed'' \<and>
   reg_member
     (processed_claims (snd (process_single_claim test_env disk_fails_world empty_pipeline sample_email)))
     (JStr ''CLM-100'') = Inr True"
  by (simp add: process_single_claim_def process_single_claim_try_def sample_email_def
      dict_item_def disk_fails_world_def ok_world_def check_duplicate_def
      check_duplicate_try_def empty_pipeline_def dict_get_def reg_set_def clm100_claim_def
      save_processed_claims_def reg_member_def key_eq_def Let_def)

lemma registry_entry_fingerprint:
  "fingerprint_text E (registry_entry r c) = Inr ''||0||''"
  by (simp add: fingerprint_text_def registry_entry_def dict_get_def py_str_def str_int_def
      str_nat.simps)

lemma registry_entry_text:
  "get_claim_text E (registry_entry r c) = ''0''"
  by (simp add: get_claim_text_def registry_entry_def dict_get_def py_str_def str_int_def
      str_nat.simps)

lemma clm100_against_entry:
  assumes "md5_hexdigest E ''CLM-100||5000||'' \<noteq> md5_hexdigest E ''||0||''"
    and "DUPLICATE_THRESHOLD E = 0.8"
  shows "check_duplicate E silent_service clm100_claim [(k, registry_entry r c)] =
     [(''is_duplicate'', JBool False), (''confidence'', JFloat 0.0), (''matches'', JList [])]"
  using assms
  by (simp add: check_duplicate_def check_duplicate_try_def check_exact_matches_def
      create_claim_fingerprint_def registry_entry_fingerprint clm100_fingerprint
      check_similar_matches_def registry_entry_text clm100_text clm100_similarity
      silent_service_no_matches combine_duplicate_results_def)

text \<open>
  C1 (what the code does). Two claims "CLM-100" of 5000 are processed in sequence from
  an empty registry. The first is registered, under its claim number. The entry
  written for it holds the email fields, the fraud score and the analysis summary, and
  none of the fields the detector reads, so its fingerprint text is \<^verbatim>\<open>||0||\<close> and its
  claim text is \<^verbatim>\<open>0\<close>, whatever the claim was. With a digest that tells \<^verbatim>\<open>||0||\<close>
  from \<^verbatim>\<open>CLM-100||5000||\<close> (their MD5 digests differ), the default threshold and a
  service that reports no match, the second claim is not flagged: the verdict is
  \<^verbatim>\<open>is_duplicate\<close> false with confidence 0.0, the result is completed, and the second
  entry replaces the first in the registry.
\<close>

theorem second_claim_not_flagged:
  assumes "md5_hexdigest E ''CLM-100||5000||'' \<noteq> md5_hexdigest E ''||0||''"
    and "DUPLICATE_THRESHOLD E = 0.8"
  shows "\<exists>r1 r2 entry1 entry2.
    process_single_claim E ok_world empty_pipeline sample_email =
      (Inr r1, \<lparr>processed_claims = [(JStr ''CLM-100'', entry1)],
               save_calls = [([(JStr ''CLM-100'', entry1)], True)]\<rparr>) \<and>
    claim_number r1 = JStr ''CLM-100'' \<and> is_duplicate r1 = JBool False \<and>
    process_two_claims E ok_world ok_world empty_pipeline sample_email sample_email =
      (Inr r1, Inr r2,
       \<lparr>processed_claims = [(JStr ''CLM-100'', entry2)],
        save_calls = [([(JStr ''CLM-100'', entry1)], True), ([(JStr ''CLM-100'', entry2)], True)]\<rparr>) \<and>
    claim_number r2 = JStr ''CLM-100'' \<and> processing_status r2 = ''completed'' \<and>
    is_duplicate r2 = JBool False \<and> duplicate_of r2 = JNull \<and>
    report_duplicate_check (the (analysis_results r2)) =
      [(''is_duplicate'', JBool False), (''confidence'', JFloat 0.0), (''matches'', JList [])]"
proof -
  let ?P1 = "process_single_claim E ok_world empty_pipeline sample_email"
  have "\<exists>r1. ?P1 =
      (Inr r1, \<lparr>processed_claims = [(JStr ''CLM-100'', registry_entry r1 clm100_claim)],
               save_calls = [([(JStr ''CLM-100'', registry_entry r1 clm100_claim)], True)]\<rparr>) \<and>
      claim_number r1 = JStr ''CLM-100'' \<and> is_duplicate r1 = JBool False"
    by (simp add: process_single_claim_def process_single_claim_try_def sample_email_def
        dict_item_def ok_world_def check_duplicate_def check_duplicate_try_def
        empty_pipeline_def reg_set_def dict_get_def clm100_claim_def
        save_processed_claims_def Let_def)
  then obtain r1 where p1: "?P1 =
      (Inr r1, \<lparr>processed_claims = [(JStr ''CLM-100'', registry_entry r1 clm100_claim)],
               save_calls = [([(JStr ''CLM-100'', registry_entry r1 clm100_claim)], True)]\<rparr>)"
    and r1: "claim_number r1 = JStr ''CLM-100''" "is_duplicate r1 = JBool False"
    by blast
  let ?st1 = "\<lparr>processed_claims = [(JStr ''CLM-100'', registry_entry r1 clm100_claim)],
               save_calls = [([(JStr ''CLM-100'', registry_entry r1 clm100_claim)], True)]\<rparr>"
  note verdict = clm100_against_entry [OF assms, of "JStr ''CLM-100''" r1 clm100_claim]
  have "\<exists>r2. process_single_claim E ok_world ?st1 sample_email =
      (Inr r2, \<lparr>processed_claims = [(JStr ''CLM-100'', registry_entry r2 clm100_claim)],
               save_calls = [([(JStr ''CLM-100'', registry_entry r1 clm100_claim)], True),
                             ([(JStr ''CLM-100'', registry_entry r2 clm100_claim)], True)]\<rparr>) \<and>
      claim_number r2 = JStr ''CLM-100'' \<and> processing_status r2 = ''completed'' \<and>
      is_duplicate r2 = JBool False \<and> duplicate_of r2 = JNull \<and>
      report_duplicate_check (the (analysis_results r2)) =
        [(''is_duplicate'', JBool False), (''confidence'', JFloat 0.0), (''matches'', JList [])]"
    using verdict
    by (simp add: process_single_claim_def process_single_claim_try_def sample_email_def
        dict_item_def ok_world_def reg_set_def dict_get_def key_eq_def
        save_processed_claims_def Let_def)
      (simp add: clm100_claim_def)
  then obtain r2 where p2: "process_single_claim E ok_world ?st1 sample_email =
      (Inr r2, \<lparr>processed_claims = [(JStr ''CLM-100'', registry_entry r2 clm100_claim)],
               save_calls = [([(JStr ''CLM-100'', registry_entry r1 clm100_claim)], True),
                             ([(JStr ''CLM-100'', registry_entry r2 clm100_claim)], True)]\<rparr>)"
    and r2: "claim_number r2 = JStr ''CLM-100''" "processing_status r2 = ''completed''"
      "is_duplicate r2 = JBool False" "duplicate_of r2 = JNull"
      "report_duplicate_check (the (analysis_results r2)) =
        [(''is_duplicate'', JBool False), (''confidence'', JFloat 0.0), (''matches'', JList [])]"
    by blast
  from p1 p2 have "process_two_claims E ok_world ok_world empty_pipeline sample_email sample_email =
      (Inr r1, Inr r2,
       \<lparr>processed_claims = [(JStr ''CLM-100'', registry_entry r2 clm100_claim)],
        save_calls = [([(JStr ''CLM-100'', registry_entry r1 clm100_claim)], True),
                      ([(JStr ''CLM-100'', registry_entry r2 clm100_claim)], True)]\<rparr>)"
    by (simp add: process_two_claims_def)
  with p1 r1 r2 show ?thesis by blast
qed

theorem second_claim_not_flagged_witness:
  "md5_hexdigest test_env ''CLM-100||5000||'' \<noteq> md5_hexdigest test_env ''||0||'' \<and>
   DUPLICATE_THRESHOLD test_env = 0.8 \<and>
   (\<exists>r1 r2 st.
      process_two_claims test_env ok_world ok_world empty_pipeline sample_email sample_email =
        (Inr r1, Inr r2, st) \<and>
      is_duplicate r1 = JBool False \<and> is_duplicate r2 = JBool False \<and>
      processing_status r2 = ''completed'')"
proof -
  have h1: "md5_hexdigest test_env ''CLM-100||5000||'' \<noteq> md5_hexdigest test_env ''||0||''"
    by (simp add: test_env_def)
  have h2: "DUPLICATE_THRESHOLD test_env = 0.8"
    by (simp add: test_env_def)
  from second_claim_not_flagged [OF h1 h2] h1 h2 show ?thesis by blast
qed

end
